theory Spec2Isabelle
  imports Complex_Main
begin

section \<open>Python values\<close>

text \<open>
  The scripts pass video records around as Python dictionaries that come from
  \<^verbatim>\<open>json.load\<close>, from the API client or from the interactive menus. A value is
  therefore one of the JSON-native Python values, or a tuple, which a caller may put into
  a record it builds and which \<^verbatim>\<open>json.dump\<close> accepts. A dictionary is an
  association list in insertion order, read with \<open>map_of\<close>; its keys are strings.
  Python floats are modelled as exact rationals (rounding, NaN and infinities are outside
  the model), and strings as ASCII character lists.
\<close>

datatype pyval =
    PNone
  | PBool bool
  | PInt int
  | PFloat rat
  | PStr string
  | PList "pyval list"
  | PTuple "pyval list"
  | PDict "(string \<times> pyval) list"

type_synonym pydict = "(string \<times> pyval) list"

datatype error =
    ZeroDivisionError
  | KeyError
  | TypeError
  | AttributeError
  | ValueError
  | FileNotFoundError

text \<open>Sequencing of a computation that may raise: the first exception wins.\<close>

definition bind :: "error + 'a \<Rightarrow> ('a \<Rightarrow> error + 'b) \<Rightarrow> error + 'b" where
  "bind m f = (case m of Inl e \<Rightarrow> Inl e | Inr x \<Rightarrow> f x)"

text \<open>\<^verbatim>\<open>d.get(k, default)\<close> and \<^verbatim>\<open>k in d\<close> on a dictionary.\<close>

definition dict_get :: "pydict \<Rightarrow> string \<Rightarrow> pyval \<Rightarrow> pyval" where
  "dict_get d k dflt = (case map_of d k of None \<Rightarrow> dflt | Some v \<Rightarrow> v)"

definition has_key :: "pydict \<Rightarrow> string \<Rightarrow> bool" where
  "has_key d k = (map_of d k \<noteq> None)"

text \<open>\<^verbatim>\<open>d[k] = v\<close>: an existing key keeps its position, a new key goes last.\<close>

fun setitem :: "(string \<times> 'a) list \<Rightarrow> string \<Rightarrow> 'a \<Rightarrow> (string \<times> 'a) list" where
  "setitem [] k v = [(k, v)]"
| "setitem ((k', v') # d) k v = (if k' = k then (k, v) # d else (k', v') # setitem d k v)"

text \<open>
  \<^verbatim>\<open>x.get(...)\<close> needs \<open>x\<close> to be a dictionary; any other value has no such
  attribute.
\<close>

definition as_dict :: "pyval \<Rightarrow> error + pydict" where
  "as_dict v = (case v of PDict d \<Rightarrow> Inr d | _ \<Rightarrow> Inl AttributeError)"

text \<open>String methods need a string.\<close>

definition as_str :: "pyval \<Rightarrow> error + string" where
  "as_str v = (case v of PStr s \<Rightarrow> Inr s | _ \<Rightarrow> Inl AttributeError)"

text \<open>
  Arithmetic and ordering against a number accept \<^verbatim>\<open>int\<close>, \<^verbatim>\<open>float\<close> and
  \<^verbatim>\<open>bool\<close> (\<^verbatim>\<open>True\<close> is 1) and raise \<^verbatim>\<open>TypeError\<close> on anything else.
\<close>

definition num_of :: "pyval \<Rightarrow> error + rat" where
  "num_of v = (case v of
       PInt i \<Rightarrow> Inr (of_int i)
     | PFloat r \<Rightarrow> Inr r
     | PBool b \<Rightarrow> Inr (if b then 1 else 0)
     | _ \<Rightarrow> Inl TypeError)"

text \<open>True division \<^verbatim>\<open>a / b\<close>.\<close>

definition truediv :: "rat \<Rightarrow> rat \<Rightarrow> error + rat" where
  "truediv a b = (if b = 0 then Inl ZeroDivisionError else Inr (a / b))"

text \<open>Truth value of a value in a condition.\<close>

definition truthy :: "pyval \<Rightarrow> bool" where
  "truthy v = (case v of
       PNone \<Rightarrow> False
     | PBool b \<Rightarrow> b
     | PInt i \<Rightarrow> i \<noteq> 0
     | PFloat r \<Rightarrow> r \<noteq> 0
     | PStr s \<Rightarrow> s \<noteq> []
     | PList xs \<Rightarrow> xs \<noteq> []
     | PTuple xs \<Rightarrow> xs \<noteq> []
     | PDict d \<Rightarrow> d \<noteq> [])"

subsection \<open>Strings\<close>

definition upper_letters :: string where
  "upper_letters = ''ABCDEFGHIJKLMNOPQRSTUVWXYZ''"

definition lower_letters :: string where
  "lower_letters = ''abcdefghijklmnopqrstuvwxyz''"

definition lower_char :: "char \<Rightarrow> char" where
  "lower_char c = (case map_of (zip upper_letters lower_letters) c of None \<Rightarrow> c | Some d \<Rightarrow> d)"

definition lower :: "string \<Rightarrow> string" where
  "lower s = map lower_char s"

definition isdigit :: "char \<Rightarrow> bool" where
  "isdigit c = (c \<in> set ''0123456789'')"

definition isspace :: "char \<Rightarrow> bool" where
  "isspace c = (c \<in> set [CHR '' '', CHR 0x09, CHR 0x0A, CHR 0x0B, CHR 0x0C, CHR 0x0D,
                            CHR 0x1C, CHR 0x1D, CHR 0x1E, CHR 0x1F])"

fun startswith :: "string \<Rightarrow> string \<Rightarrow> bool" where
  "startswith s [] = True"
| "startswith [] (p # ps) = False"
| "startswith (c # cs) (p # ps) = (c = p \<and> startswith cs ps)"

definition endswith :: "string \<Rightarrow> string \<Rightarrow> bool" where
  "endswith s p = startswith (rev s) (rev p)"

text \<open>\<^verbatim>\<open>needle in hay\<close> on strings: \<open>needle\<close> occurs as a contiguous piece.\<close>

fun str_contains :: "string \<Rightarrow> string \<Rightarrow> bool" where
  "str_contains [] needle = (needle = [])"
| "str_contains (c # cs) needle = (startswith (c # cs) needle \<or> str_contains cs needle)"

text \<open>
  \<^verbatim>\<open>s.split()\<close>: the maximal runs of non-whitespace characters. \<open>cur\<close> is the
  run being read.
\<close>

fun split_acc :: "string \<Rightarrow> string \<Rightarrow> string list" where
  "split_acc cur [] = (if cur = [] then [] else [cur])"
| "split_acc cur (c # cs) =
     (if isspace c then (if cur = [] then split_acc [] cs else cur # split_acc [] cs)
      else split_acc (cur @ [c]) cs)"

definition split :: "string \<Rightarrow> string list" where
  "split s = split_acc [] s"

section \<open>API integration: transforming an analysis into a competitor record\<close>

text \<open>
  \<^verbatim>\<open>APIIntegrationModule._infer_face_presence\<close>: the loop over the personal
  indicators lower-cases the title in its first round, then the niche decides.
\<close>

definition infer_face_presence :: "pyval \<Rightarrow> string \<Rightarrow> error + bool" where
  "infer_face_presence title niche =
     bind (as_str title) (\<lambda>t.
       Inr (list_ex (\<lambda>indicator. str_contains (lower t) indicator)
              [''i '', ''me'', ''my'', ''how i'', ''i tried'']
            \<or> niche \<in> set [''health_fitness'', ''productivity'']))"

text \<open>
  The engagement block of \<^verbatim>\<open>_transform_to_competitor_format\<close>
  (\<^verbatim>\<open>if engagement: ... if view_count > 0: ...\<close>): the fields it adds to the record,
  none when the dictionary is empty or the view count is not positive.
\<close>

definition engagement_metrics :: "pydict \<Rightarrow> error + pydict" where
  "engagement_metrics engagement =
     (if engagement = [] then Inr []
      else
        bind (num_of (dict_get engagement ''view_count'' (PInt 0))) (\<lambda>view_count.
          if view_count > 0 then
            bind (num_of (dict_get engagement ''like_count'' (PInt 0))) (\<lambda>likes.
            bind (truediv likes view_count) (\<lambda>lq.
            bind (num_of (dict_get engagement ''comment_count'' (PInt 0))) (\<lambda>comments.
            bind (truediv comments view_count) (\<lambda>cq.
              Inr [(''engagement_metrics'',
                    PDict [(''like_ratio'', PFloat (lq * 100)),
                           (''comment_ratio'', PFloat (cq * 100))])]))))
          else Inr []))"

text \<open>
  Iterating a value: a list or a tuple gives its elements, a string its characters, a
  dictionary its keys; nothing else is iterable.
\<close>

definition py_iter :: "pyval \<Rightarrow> error + pyval list" where
  "py_iter v = (case v of
       PList xs \<Rightarrow> Inr xs
     | PTuple xs \<Rightarrow> Inr xs
     | PStr s \<Rightarrow> Inr (map (\<lambda>c. PStr [c]) s)
     | PDict d \<Rightarrow> Inr (map (\<lambda>(k, _). PStr k) d)
     | _ \<Rightarrow> Inl TypeError)"

text \<open>\<^verbatim>\<open>[p.get('pattern', '') for p in pattern_list]\<close>\<close>

fun pattern_names :: "pyval list \<Rightarrow> error + pyval list" where
  "pattern_names [] = Inr []"
| "pattern_names (p # ps) =
     bind (as_dict p) (\<lambda>d.
     bind (pattern_names ps) (\<lambda>rest.
       Inr (dict_get d ''pattern'' (PStr []) # rest)))"

text \<open>The loop over \<^verbatim>\<open>patterns.items()\<close> that fills \<^verbatim>\<open>pattern_data\<close>.\<close>

fun pattern_data :: "pydict \<Rightarrow> pydict \<Rightarrow> error + pydict" where
  "pattern_data acc [] = Inr acc"
| "pattern_data acc ((pattern_type, pattern_list) # rest) =
     (if pattern_type \<in> set [''title_patterns'', ''description_patterns'', ''engagement_patterns'']
      then
        bind (py_iter pattern_list) (\<lambda>ps.
        bind (pattern_names ps) (\<lambda>names.
          pattern_data (setitem acc pattern_type (PList names)) rest))
      else pattern_data acc rest)"

text \<open>
  \<^verbatim>\<open>APIIntegrationModule._transform_to_competitor_format(analysis, niche)\<close>. The
  steps are those of the source, in its order; each \<^verbatim>\<open>.get\<close> on a value that is
  not a dictionary raises.
\<close>

definition transform_to_competitor_format :: "pydict \<Rightarrow> string \<Rightarrow> error + pydict" where
  "transform_to_competitor_format analysis niche =
     bind (as_dict (dict_get analysis ''metadata'' (PDict []))) (\<lambda>metadata.
     bind (as_dict (dict_get metadata ''basic_info'' (PDict []))) (\<lambda>basic_info.
     bind (as_dict (dict_get metadata ''engagement'' (PDict []))) (\<lambda>engagement.
     bind (as_dict (dict_get metadata ''seo'' (PDict []))) (\<lambda>seo.
     bind (as_dict (dict_get metadata ''content_details'' (PDict []))) (\<lambda>content_details.
     bind (as_dict (dict_get analysis ''transcript_info'' (PDict []))) (\<lambda>transcript_info.
     bind (infer_face_presence (dict_get basic_info ''title'' (PStr [])) niche) (\<lambda>has_face.
     let thumbnail_data =
           [(''has_face'', PBool has_face),
            (''has_text'', PBool True),
            (''colors'', PList [PStr ''blue'', PStr ''red'', PStr ''white''])];
         video_info =
           [(''title'', dict_get basic_info ''title'' (PStr [])),
            (''channel'', dict_get basic_info ''channel_name'' (PStr [])),
            (''url'', dict_get analysis ''video_url'' (PStr [])),
            (''video_id'', dict_get analysis ''video_id'' (PStr [])),
            (''views'', dict_get engagement ''view_count'' (PInt 0)),
            (''likes'', dict_get engagement ''like_count'' (PInt 0)),
            (''comments'', dict_get engagement ''comment_count'' (PInt 0)),
            (''description'', dict_get seo ''description'' (PStr [])),
            (''thumbnail'', PDict thumbnail_data),
            (''upload_date'', dict_get basic_info ''publish_date'' (PStr [])),
            (''duration'', dict_get basic_info ''length_seconds'' (PInt 0)),
            (''rich_data'',
               PDict [(''keywords'', dict_get seo ''tags'' (PList [])),
                      (''category_id'', dict_get seo ''category_id'' (PStr [])),
                      (''has_caption'', dict_get content_details ''has_caption'' (PBool False))])]
     in
     bind (if has_key metadata ''channel_info'' then
             bind (as_dict (dict_get metadata ''channel_info'' PNone)) (\<lambda>ci.
               Inr [(''channel_data'',
                     PDict [(''subscriber_count'', dict_get ci ''subscriber_count'' (PInt 0)),
                            (''video_count'', dict_get ci ''video_count'' (PInt 0)),
                            (''total_views'', dict_get ci ''view_count'' (PInt 0))])])
           else Inr []) (\<lambda>channel_data.
     bind (engagement_metrics engagement) (\<lambda>metrics.
     bind (if has_key analysis ''patterns'' then
             (case dict_get analysis ''patterns'' PNone of
                PDict patterns \<Rightarrow>
                  bind (pattern_data [] patterns) (\<lambda>pd. Inr [(''detected_patterns'', PDict pd)])
              | _ \<Rightarrow> Inl AttributeError)
           else Inr []) (\<lambda>detected.
       Inr (video_info @ channel_data @ metrics @ detected)))))))))))"

text \<open>
  The engagement section of \<^verbatim>\<open>YouTubeAPIExtractor._identify_patterns\<close>: the entries
  appended to \<^verbatim>\<open>patterns["engagement_patterns"]\<close>. The \<^verbatim>\<open>description\<close> text of
  an entry prints the ratio with two decimals; the model keeps the number in
  \<^verbatim>\<open>value\<close> and leaves the printed text out.
\<close>

definition engagement_patterns :: "pydict \<Rightarrow> error + pyval list" where
  "engagement_patterns engagement =
     bind (num_of (dict_get engagement ''view_count'' (PInt 0))) (\<lambda>view_count.
       if view_count > 0 then
         bind (num_of (dict_get engagement ''like_count'' (PInt 0))) (\<lambda>like_count.
         bind (truediv like_count view_count) (\<lambda>lq.
         bind (num_of (dict_get engagement ''comment_count'' (PInt 0))) (\<lambda>comment_count.
         bind (truediv comment_count view_count) (\<lambda>cq.
           Inr [PDict [(''pattern'', PStr ''like_ratio''), (''value'', PFloat (lq * 100))],
                PDict [(''pattern'', PStr ''comment_ratio''), (''value'', PFloat (cq * 100))]]))))
       else Inr [])"

section \<open>Content-DNA aggregation\<close>

text \<open>
  \<^verbatim>\<open>DataIntegrationModule._analyze_content_dna(videos, niche)\<close>. The document it
  returns is built by the code itself, so it is a record; the numbers in it are exact
  rationals. The wall-clock reading of \<^verbatim>\<open>time.strftime\<close> is an argument.
\<close>

text \<open>\<^verbatim>\<open>k in c\<close> for a string \<open>k\<close> and an arbitrary container \<open>c\<close>.\<close>

definition py_in :: "string \<Rightarrow> pyval \<Rightarrow> error + bool" where
  "py_in k c = (case c of
       PDict d \<Rightarrow> Inr (has_key d k)
     | PList xs \<Rightarrow> Inr (PStr k \<in> set xs)
     | PTuple xs \<Rightarrow> Inr (PStr k \<in> set xs)
     | PStr s \<Rightarrow> Inr (str_contains s k)
     | _ \<Rightarrow> Inl TypeError)"

text \<open>\<^verbatim>\<open>c[k]\<close> with a string key: only a dictionary can be read that way.\<close>

definition subscript :: "pyval \<Rightarrow> string \<Rightarrow> error + pyval" where
  "subscript c k = (case c of
       PDict d \<Rightarrow> (case map_of d k of None \<Rightarrow> Inl KeyError | Some v \<Rightarrow> Inr v)
     | _ \<Rightarrow> Inl TypeError)"

text \<open>\<^verbatim>\<open>sum(...)\<close> over values, starting from the integer 0.\<close>

fun py_sum :: "pyval list \<Rightarrow> rat \<Rightarrow> error + rat" where
  "py_sum [] acc = Inr acc"
| "py_sum (v # vs) acc = bind (num_of v) (\<lambda>x. py_sum vs (acc + x))"

text \<open>\<^verbatim>\<open>int(x)\<close> on a number truncates towards zero.\<close>

definition py_int :: "rat \<Rightarrow> int" where
  "py_int r = (if r < 0 then - \<lfloor>- r\<rfloor> else \<lfloor>r\<rfloor>)"

text \<open>The decimal text of an integer, as an f-string prints it.\<close>

fun show_nat :: "nat \<Rightarrow> string" where
  "show_nat n =
     (if n < 10 then [''0123456789'' ! n]
      else show_nat (n div 10) @ [''0123456789'' ! (n mod 10)])"

definition show_int :: "int \<Rightarrow> string" where
  "show_int i = (if i < 0 then CHR ''-'' # show_nat (nat (- i)) else show_nat (nat i))"

text \<open>\<^verbatim>\<open>sep.join(words)\<close>\<close>

fun join :: "string \<Rightarrow> string list \<Rightarrow> string" where
  "join sep [] = []"
| "join sep [w] = w"
| "join sep (w # v # ws) = w @ sep @ join sep (v # ws)"

subsection \<open>Title DNA\<close>

text \<open>A counter dictionary: \<^verbatim>\<open>d[k] += 1\<close> on a key that is there.\<close>

definition bump :: "string \<Rightarrow> (string \<times> nat) list \<Rightarrow> (string \<times> nat) list" where
  "bump k d = map (\<lambda>(k', c). if k' = k then (k', c + 1) else (k', c)) d"

definition title_structures_init :: "(string \<times> nat) list" where
  "title_structures_init =
     [(''question'', 0), (''number'', 0), (''how_to'', 0), (''list'', 0), (''emotional'', 0)]"

text \<open>The five independent tests on a lower-cased title.\<close>

definition count_structures :: "string \<Rightarrow> (string \<times> nat) list \<Rightarrow> (string \<times> nat) list" where
  "count_structures title ts =
     (let ts = (if CHR ''?'' \<in> set title then bump ''question'' ts else ts);
          ts = (if list_ex isdigit title then bump ''number'' ts else ts);
          ts = (if startswith title ''how to'' \<or> startswith title ''how i''
                then bump ''how_to'' ts else ts);
          ts = (if list_ex (str_contains title) [''top'', ''best'', ''ways'', ''tips'']
                then bump ''list'' ts else ts);
          ts = (if list_ex (str_contains title)
                     [''amazing'', ''incredible'', ''shocking'', ''surprising'', ''best'', ''worst'']
                then bump ''emotional'' ts else ts)
      in ts)"

text \<open>
  The first loop over the videos: it collects the title words longer than three
  characters and counts the structures.
\<close>

fun title_loop ::
  "pydict list \<Rightarrow> string list \<times> (string \<times> nat) list
     \<Rightarrow> error + string list \<times> (string \<times> nat) list" where
  "title_loop [] acc = Inr acc"
| "title_loop (video # videos) (title_words, title_structures) =
     bind (as_str (dict_get video ''title'' (PStr []))) (\<lambda>t.
       let title = lower t in
       title_loop videos
         (title_words @ filter (\<lambda>w. length w > 3) (split title),
          count_structures title title_structures))"

text \<open>\<^verbatim>\<open>word_freq[word] = word_freq.get(word, 0) + 1\<close>\<close>

fun count_word :: "string \<Rightarrow> (string \<times> nat) list \<Rightarrow> (string \<times> nat) list" where
  "count_word w [] = [(w, 1)]"
| "count_word w ((w', c) # d) = (if w' = w then (w', c + 1) # d else (w', c) # count_word w d)"

text \<open>
  \<^verbatim>\<open>sorted(word_freq.items(), key=lambda x: x[1], reverse=True)[:20]\<close>: a stable sort,
  largest count first.
\<close>

definition top_keywords :: "(string \<times> nat) list \<Rightarrow> (string \<times> nat) list" where
  "top_keywords word_freq = take 20 (sort_key (\<lambda>(w, c). - int c) word_freq)"

text \<open>The \<^verbatim>\<open>structures\<close> comprehension: count and percentage of every structure.\<close>

fun structure_stats :: "(string \<times> nat) list \<Rightarrow> nat \<Rightarrow> error + (string \<times> nat \<times> rat) list" where
  "structure_stats [] n = Inr []"
| "structure_stats ((k, v) # ts) n =
     bind (truediv (of_nat v) (of_nat n)) (\<lambda>q.
     bind (structure_stats ts n) (\<lambda>rest.
       Inr ((k, v, q * 100) # rest)))"

text \<open>\<^verbatim>\<open>sum(len(v.get('title', '').split()) for v in videos)\<close>\<close>

fun title_word_total :: "pydict list \<Rightarrow> error + nat" where
  "title_word_total [] = Inr 0"
| "title_word_total (v # vs) =
     bind (as_str (dict_get v ''title'' (PStr []))) (\<lambda>t.
     bind (title_word_total vs) (\<lambda>rest.
       Inr (length (split t) + rest)))"

record title_dna =
  title_keywords :: "(string \<times> nat) list"
  structures :: "(string \<times> nat \<times> rat) list"
  avg_length :: rat

subsection \<open>Script DNA\<close>

record script_stats =
  avg_hook_words :: rat
  avg_sections :: rat
  avg_wpm :: rat
  transitions_pct :: rat
  cta_pct :: rat

record counters =
  hooks_count :: nat
  sections_count :: nat
  wpm_count :: nat
  transitions_count :: nat
  cta_count :: nat

definition script_stats_init :: script_stats where
  "script_stats_init =
     \<lparr>avg_hook_words = 25, avg_sections = 5, avg_wpm = 150, transitions_pct = 60, cta_pct = 80\<rparr>"

definition counters_init :: counters where
  "counters_init =
     \<lparr>hooks_count = 0, sections_count = 0, wpm_count = 0, transitions_count = 0, cta_count = 0\<rparr>"

text \<open>
  One round of an incremental average, as written three times in the source:
  \<^verbatim>\<open>if key in ss: count += 1; avg = (avg * (count - 1) + ss[key]) / count\<close>.
\<close>

definition running_avg :: "string \<Rightarrow> pyval \<Rightarrow> rat \<times> nat \<Rightarrow> error + rat \<times> nat" where
  "running_avg key ss st =
     (case st of (avg, count) \<Rightarrow>
        bind (py_in key ss) (\<lambda>present.
          if present then
            let count = count + 1 in
            bind (subscript ss key) (\<lambda>v.
            bind (num_of v) (\<lambda>x.
            bind (truediv (avg * of_nat (count - 1) + x) (of_nat count)) (\<lambda>a.
              Inr (a, count))))
          else Inr (avg, count)))"

text \<open>
  One round of a percentage, as written twice in the source:
  \<^verbatim>\<open>if key in ss: count += 1; if ss[key]: pct = ((pct / 100) * (count - 1) + 1) / count * 100\<close>.
  The percentage is recomputed only in a round whose flag is true.
\<close>

definition running_pct :: "string \<Rightarrow> pyval \<Rightarrow> rat \<times> nat \<Rightarrow> error + rat \<times> nat" where
  "running_pct key ss st =
     (case st of (pct, count) \<Rightarrow>
        bind (py_in key ss) (\<lambda>present.
          if present then
            let count = count + 1 in
            bind (subscript ss key) (\<lambda>v.
              if truthy v then
                bind (truediv ((pct / 100) * of_nat (count - 1) + 1) (of_nat count)) (\<lambda>q.
                  Inr (q * 100, count))
              else Inr (pct, count))
          else Inr (pct, count)))"

text \<open>The body of the second loop, for one video.\<close>

definition script_step :: "pydict \<Rightarrow> script_stats \<times> counters \<Rightarrow> error + script_stats \<times> counters" where
  "script_step video st =
     (case st of (stats, cnt) \<Rightarrow>
        if has_key video ''script_structure'' then
          let ss = dict_get video ''script_structure'' PNone in
          bind (running_avg ''hook_word_count'' ss (avg_hook_words stats, hooks_count cnt)) (\<lambda>(h, hc).
          bind (running_avg ''section_count'' ss (avg_sections stats, sections_count cnt)) (\<lambda>(s, sc).
          bind (running_avg ''words_per_minute'' ss (avg_wpm stats, wpm_count cnt)) (\<lambda>(w, wc).
          bind (running_pct ''has_clear_transitions'' ss (transitions_pct stats, transitions_count cnt)) (\<lambda>(t, tc).
          bind (running_pct ''has_cta'' ss (cta_pct stats, cta_count cnt)) (\<lambda>(c, cc).
            Inr (\<lparr>avg_hook_words = h, avg_sections = s, avg_wpm = w,
                   transitions_pct = t, cta_pct = c\<rparr>,
                 \<lparr>hooks_count = hc, sections_count = sc, wpm_count = wc,
                   transitions_count = tc, cta_count = cc\<rparr>))))))
        else Inr (stats, cnt))"

fun script_loop :: "pydict list \<Rightarrow> script_stats \<times> counters \<Rightarrow> error + script_stats \<times> counters" where
  "script_loop [] st = Inr st"
| "script_loop (video # videos) st = bind (script_step video st) (script_loop videos)"

record script_dna =
  stats :: script_stats
  script_keywords :: "string list"

subsection \<open>Engagement factors\<close>

text \<open>
  \<^verbatim>\<open>avg_likes\<close> is \<open>None\<close> where the document holds the text
  \<^verbatim>\<open>"Not available"\<close>; the source stores the sum of the likes under that name.
\<close>

record engagement_factors =
  avg_views :: rat
  avg_likes :: "rat option"

definition engagement_analysis :: "pydict list \<Rightarrow> error + engagement_factors option" where
  "engagement_analysis videos =
     (if length videos > 1 then
        (case filter (\<lambda>v. has_key v ''views'') videos of
           [] \<Rightarrow> Inr None
         | first # others \<Rightarrow>
             let videos_with_engagement = first # others in
             bind (py_sum (map (\<lambda>v. dict_get v ''views'' (PInt 0)) videos_with_engagement) 0) (\<lambda>total_views.
             bind (truediv total_views (of_nat (length videos_with_engagement))) (\<lambda>av.
             bind (if has_key first ''likes''
                   then bind (py_sum (map (\<lambda>v. dict_get v ''likes'' (PInt 0)) videos_with_engagement) 0)
                          (\<lambda>total_likes. Inr (Some total_likes))
                   else Inr None) (\<lambda>al.
               Inr (Some \<lparr>avg_views = av, avg_likes = al\<rparr>)))))
      else Inr None)"

subsection \<open>Content DNA patterns and the document\<close>

text \<open>An entry carries either a \<^verbatim>\<open>prevalence\<close> or a \<^verbatim>\<open>value\<close> number.\<close>

datatype metric = Prevalence rat | Value rat

record dna_pattern =
  element :: string
  pattern :: string
  metric :: metric
  recommendation :: string

text \<open>
  \<^verbatim>\<open>max(title_structures.items(), key=lambda x: x[1])\<close>: the items are visited in
  dictionary order and the held item is replaced only by a strictly larger count.
\<close>

fun max_item :: "string \<times> 'a::linorder \<Rightarrow> (string \<times> 'a) list \<Rightarrow> string \<times> 'a" where
  "max_item best [] = best"
| "max_item best (x # xs) = max_item (if snd x > snd best then x else best) xs"

definition top_structure :: "(string \<times> nat) list \<Rightarrow> error + string \<times> nat" where
  "top_structure items = (case items of [] \<Rightarrow> Inl ValueError | x # xs \<Rightarrow> Inr (max_item x xs))"

definition content_dna :: "string \<times> nat \<Rightarrow> nat \<Rightarrow> script_stats \<Rightarrow> error + dna_pattern list" where
  "content_dna top_title_structure n st =
     bind (if snd top_title_structure > 0 then
             bind (truediv (of_nat (snd top_title_structure)) (of_nat n)) (\<lambda>q.
               Inr [\<lparr>element = ''title'',
                     pattern = fst top_title_structure @ ''_structure'',
                     metric = Prevalence (q * 100),
                     recommendation =
                       ''Use a '' @ fst top_title_structure @ '' structure in your title''\<rparr>])
           else Inr []) (\<lambda>title_entry.
       Inr (title_entry
          @ (if transitions_pct st > 50 then
               [\<lparr>element = ''script'', pattern = ''clear_transitions'',
                 metric = Prevalence (transitions_pct st),
                 recommendation =
                   ''Use clear transition phrases between sections of your script''\<rparr>]
             else [])
          @ (if cta_pct st > 50 then
               [\<lparr>element = ''script'', pattern = ''verbal_cta'',
                 metric = Prevalence (cta_pct st),
                 recommendation = ''Include verbal calls to action in your script''\<rparr>]
             else [])
          @ [\<lparr>element = ''script'', pattern = ''hook_length'',
               metric = Value (avg_hook_words st),
               recommendation =
                 ''Use a hook of approximately '' @ show_int (py_int (avg_hook_words st))
                 @ '' words''\<rparr>,
             \<lparr>element = ''script'', pattern = ''speaking_pace'',
               metric = Value (avg_wpm st),
               recommendation =
                 ''Aim for a speaking pace of '' @ show_int (py_int (avg_wpm st))
                 @ '' words per minute''\<rparr>]))"

record summary =
  title_strategy :: string
  pattern_count :: nat
  top_patterns :: "string list"
  has_script_dna :: bool

record analysis =
  niche :: string
  video_count :: nat
  timestamp :: string
  title_dna :: title_dna
  description_dna :: pydict
  script_dna :: script_dna
  engagement_factors :: "engagement_factors option"
  content_dna_patterns :: "dna_pattern list"
  summary :: summary

definition analyze_content_dna :: "string \<Rightarrow> pydict list \<Rightarrow> string \<Rightarrow> error + analysis" where
  "analyze_content_dna now videos nm =
     bind (title_loop videos ([], title_structures_init)) (\<lambda>(title_words, title_structures).
     let word_freq = fold count_word title_words [];
         kws = top_keywords word_freq
     in
     bind (structure_stats title_structures (length videos)) (\<lambda>structs.
     bind (title_word_total videos) (\<lambda>total.
     bind (truediv (of_nat total) (of_nat (length videos))) (\<lambda>avg_len.
     bind (script_loop videos (script_stats_init, counters_init)) (\<lambda>(st, cnt).
     bind (engagement_analysis videos) (\<lambda>eng.
     bind (top_structure title_structures) (\<lambda>top_title_structure.
     bind (content_dna top_title_structure (length videos) st) (\<lambda>dna.
       Inr \<lparr>niche = nm,
            video_count = length videos,
            timestamp = now,
            title_dna = \<lparr>title_keywords = kws, structures = structs, avg_length = avg_len\<rparr>,
            description_dna = [],
            script_dna = \<lparr>stats = st, script_keywords = []\<rparr>,
            engagement_factors = eng,
            content_dna_patterns = dna,
            summary =
              \<lparr>title_strategy =
                 ''Use '' @ fst top_title_structure @ '' structure with keywords: ''
                 @ join '', '' (map fst (take 5 kws)),
               pattern_count = length dna,
               top_patterns = map pattern (take 3 dna),
               has_script_dna = True\<rparr>\<rparr>))))))))"

subsection \<open>The script statistics as the specification words them\<close>

text \<open>The value a script structure holds under a key, when it is a dictionary with that key.\<close>

definition ss_value :: "string \<Rightarrow> pyval \<Rightarrow> pyval option" where
  "ss_value key ss = (case ss of PDict d \<Rightarrow> map_of d key | _ \<Rightarrow> None)"

text \<open>
  A record carries a key when it has a \<^verbatim>\<open>script_structure\<close> dictionary with that key.
\<close>

definition carried :: "string \<Rightarrow> pydict \<Rightarrow> pyval option" where
  "carried key video =
     (case map_of video ''script_structure'' of None \<Rightarrow> None | Some ss \<Rightarrow> ss_value key ss)"

text \<open>The number a numeric value stands for.\<close>

definition num_value :: "pyval \<Rightarrow> rat" where
  "num_value v = (case num_of v of Inl e \<Rightarrow> 0 | Inr r \<Rightarrow> r)"

text \<open>The numbers under a key, one for each record that carries it, in list order.\<close>

definition carried_values :: "string \<Rightarrow> pydict list \<Rightarrow> rat list" where
  "carried_values key videos = map num_value (List.map_filter (carried key) videos)"

text \<open>The arithmetic mean of a list of numbers, or a default when there is none.\<close>

definition mean_or :: "rat \<Rightarrow> rat list \<Rightarrow> rat" where
  "mean_or dflt xs = (if xs = [] then dflt else sum_list xs / of_nat (length xs))"

text \<open>What one round of the loop does to an average and its counter.\<close>

definition avg_rel :: "string \<Rightarrow> pydict \<Rightarrow> rat \<times> nat \<Rightarrow> rat \<times> nat \<Rightarrow> bool" where
  "avg_rel key video s s' =
     (case carried key video of
        None \<Rightarrow> s' = s
      | Some x \<Rightarrow> num_of x = Inr (num_value x) \<and> snd s' = snd s + 1
                  \<and> fst s' * of_nat (snd s') = fst s * of_nat (snd s) + num_value x)"

text \<open>What the whole loop does to an average and its counter.\<close>

definition loop_rel :: "string \<Rightarrow> pydict list \<Rightarrow> rat \<times> nat \<Rightarrow> rat \<times> nat \<Rightarrow> bool" where
  "loop_rel key videos s s' =
     (snd s' = snd s + length (carried_values key videos)
      \<and> fst s' * of_nat (snd s') = fst s * of_nat (snd s) + sum_list (carried_values key videos)
      \<and> (carried_values key videos = [] \<longrightarrow> fst s' = fst s))"

subsection \<open>Dominant structure and well-formed records\<close>

text \<open>
  The dominant structure in the words of the specification: the first item, in dictionary
  order, whose count is at least every count.
\<close>

definition dominant :: "(string \<times> nat) list \<Rightarrow> (string \<times> nat) option" where
  "dominant items = find (\<lambda>y. list_all (\<lambda>z. snd z \<le> snd y) items) items"

text \<open>
  Records as the data model types them: the title is a string, the view and like counts
  are numbers, and a script structure is a dictionary whose averaged fields are numbers.
\<close>

definition is_str :: "pyval \<Rightarrow> bool" where
  "is_str v = (case v of PStr s \<Rightarrow> True | _ \<Rightarrow> False)"

definition is_num :: "pyval \<Rightarrow> bool" where
  "is_num v = (case v of PInt i \<Rightarrow> True | PFloat r \<Rightarrow> True | PBool b \<Rightarrow> True | _ \<Rightarrow> False)"

definition opt_field :: "pydict \<Rightarrow> string \<Rightarrow> (pyval \<Rightarrow> bool) \<Rightarrow> bool" where
  "opt_field d k ok = (case map_of d k of None \<Rightarrow> True | Some v \<Rightarrow> ok v)"

definition well_formed_script :: "pyval \<Rightarrow> bool" where
  "well_formed_script ss =
     (case ss of
        PDict d \<Rightarrow> opt_field d ''hook_word_count'' is_num \<and> opt_field d ''section_count'' is_num
                   \<and> opt_field d ''words_per_minute'' is_num
      | _ \<Rightarrow> False)"

definition well_formed_video :: "pydict \<Rightarrow> bool" where
  "well_formed_video v =
     (opt_field v ''title'' is_str \<and> opt_field v ''script_structure'' well_formed_script
      \<and> opt_field v ''views'' is_num \<and> opt_field v ''likes'' is_num)"

text \<open>The structure counts a document reports, without the percentages.\<close>

definition structure_counts :: "analysis \<Rightarrow> (string \<times> nat) list" where
  "structure_counts doc = map (\<lambda>(k, c, p). (k, c)) (structures (title_dna doc))"

section \<open>The local video store\<close>

subsection \<open>JSON documents\<close>

text \<open>
  The store is the file \<^verbatim>\<open>competitor_database.json\<close>, written by
  \<^verbatim>\<open>json.dump\<close> and read by \<^verbatim>\<open>json.load\<close>. The model keeps the document the
  text encodes, not the text: \<^verbatim>\<open>json.dump\<close> turns a value into a document by the
  conversion table of the library (a tuple becomes an array, as a list does), and \<^verbatim>\<open>json.load\<close> turns a document into a value,
  where a member name that occurs twice in an object keeps its first position and its
  last value.
\<close>

datatype json =
    JNull
  | JBool bool
  | JInt int
  | JReal rat
  | JStr string
  | JArray "json list"
  | JObject "(string \<times> json) list"

primrec to_json :: "pyval \<Rightarrow> json" where
  "to_json PNone = JNull"
| "to_json (PBool b) = JBool b"
| "to_json (PInt i) = JInt i"
| "to_json (PFloat r) = JReal r"
| "to_json (PStr s) = JStr s"
| "to_json (PList xs) = JArray (map to_json xs)"
| "to_json (PTuple xs) = JArray (map to_json xs)"
| "to_json (PDict d) = JObject (map (map_prod id to_json) d)"

text \<open>Building a dictionary from the members of an object, in their order.\<close>

definition dict_of_pairs :: "(string \<times> 'a) list \<Rightarrow> (string \<times> 'a) list" where
  "dict_of_pairs ps = fold (\<lambda>(k, v) d. setitem d k v) ps []"

primrec of_json :: "json \<Rightarrow> pyval" where
  "of_json JNull = PNone"
| "of_json (JBool b) = PBool b"
| "of_json (JInt i) = PInt i"
| "of_json (JReal r) = PFloat r"
| "of_json (JStr s) = PStr s"
| "of_json (JArray xs) = PList (map of_json xs)"
| "of_json (JObject ps) = PDict (dict_of_pairs (map (map_prod id of_json) ps))"

text \<open>
  A Python dictionary has every key once. In an association list that is a property:
  the keys of the dictionary, and of every dictionary inside it, are distinct.
\<close>

primrec proper :: "pyval \<Rightarrow> bool" where
  "proper PNone = True"
| "proper (PBool b) = True"
| "proper (PInt i) = True"
| "proper (PFloat r) = True"
| "proper (PStr s) = True"
| "proper (PList xs) = list_all proper xs"
| "proper (PTuple xs) = list_all proper xs"
| "proper (PDict d) = (distinct (map fst d) \<and> list_all (pred_prod (\<lambda>k. True) proper) d)"

text \<open>
  The values \<^verbatim>\<open>json.load\<close> produces: \<^verbatim>\<open>None\<close>, booleans, integers, floats,
  strings, lists and dictionaries of such values. A tuple is not one of them, at any
  depth.
\<close>

primrec json_native :: "pyval \<Rightarrow> bool" where
  "json_native PNone = True"
| "json_native (PBool b) = True"
| "json_native (PInt i) = True"
| "json_native (PFloat r) = True"
| "json_native (PStr s) = True"
| "json_native (PList xs) = list_all json_native xs"
| "json_native (PTuple xs) = False"
| "json_native (PDict d) = list_all (pred_prod (\<lambda>k. True) json_native) d"

subsection \<open>The analyzer and its file\<close>

text \<open>
  \<^verbatim>\<open>CompetitorAnalyzer.competitor_data\<close> maps a niche name to a list of video
  records. The records are objects: \<^verbatim>\<open>manual_add_video\<close> writes into the dictionary
  it is given and stores that same dictionary, so a record is a reference into a heap of
  dictionaries, and the same reference may stand in several places. The file, when it
  exists, holds a JSON object of arrays of objects, as \<^verbatim>\<open>save_competitor_data\<close>
  writes it; a file that is not JSON, or JSON of another shape, is outside the model.
\<close>

type_synonym ref = nat

type_synonym database = "(string \<times> pydict list) list"

type_synonym db_doc = "(string \<times> (string \<times> json) list list) list"

record world =
  heap :: "ref \<Rightarrow> pydict"
  competitor_data :: "(string \<times> ref list) list"
  db_file :: "db_doc option"

text \<open>The mapping as a value: every reference replaced by the dictionary it points to.\<close>

definition view :: "world \<Rightarrow> database" where
  "view w = map (map_prod id (map (heap w))) (competitor_data w)"

definition encode_db :: "database \<Rightarrow> db_doc" where
  "encode_db db = map (map_prod id (map (map (map_prod id to_json)))) db"

definition decode_db :: "db_doc \<Rightarrow> database" where
  "decode_db doc =
     dict_of_pairs
       (map (map_prod id (map (\<lambda>members. dict_of_pairs (map (map_prod id of_json) members)))) doc)"

definition initial_db :: database where
  "initial_db = [(''productivity'', []), (''health_fitness'', []), (''ai_tech'', [])]"

text \<open>
  \<^verbatim>\<open>load_competitor_data\<close>: the mapping read from the file, or, when there is no
  file, the empty database over the three niches, which is also written to the file.
\<close>

definition load_competitor_data :: "world \<Rightarrow> database \<times> world" where
  "load_competitor_data w =
     (case db_file w of
        Some doc \<Rightarrow> (decode_db doc, w)
      | None \<Rightarrow> (initial_db, w\<lparr>db_file := Some (encode_db initial_db)\<rparr>))"

text \<open>\<^verbatim>\<open>save_competitor_data\<close>: the whole mapping replaces the file.\<close>

definition save_competitor_data :: "world \<Rightarrow> world" where
  "save_competitor_data w = w\<lparr>db_file := Some (encode_db (view w))\<rparr>"

text \<open>
  The result \<^verbatim>\<open>{"status": "success", "message": f"Video '{title}' added to {niche}
  database"}\<close>, kept as the title value and the niche the message prints.
\<close>

datatype add_result = Added pyval string

text \<open>
  \<^verbatim>\<open>manual_add_video(video_info, niche)\<close>, at the clock reading \<open>now\<close>. The steps
  are those of the source: a niche that is not a key becomes one, with an empty list; the
  dictionary \<open>video_info\<close> points to receives \<^verbatim>\<open>date_added\<close>; the reference is appended
  to the list of the niche; the file is rewritten; and only then the message reads the
  title, so a record without a title is stored and saved before \<^verbatim>\<open>KeyError\<close> is
  raised.
\<close>

definition manual_add_video :: "string \<Rightarrow> ref \<Rightarrow> string \<Rightarrow> world \<Rightarrow> (error + add_result) \<times> world" where
  "manual_add_video now video_info nm w =
     (let data = (if map_of (competitor_data w) nm = None
                  then competitor_data w @ [(nm, [])] else competitor_data w);
          stamped = setitem (heap w video_info) ''date_added'' (PStr now);
          data = map (\<lambda>(k, refs). if k = nm then (k, refs @ [video_info]) else (k, refs)) data;
          w' = save_competitor_data (w\<lparr>heap := (heap w)(video_info := stamped), competitor_data := data\<rparr>)
      in (case map_of stamped ''title'' of
            None \<Rightarrow> Inl KeyError
          | Some title \<Rightarrow> Inr (Added title nm),
          w'))"

subsection \<open>Adding the rows of a CSV file\<close>

text \<open>\<^verbatim>\<open>s.split(',')\<close>: the pieces between the separators, empty pieces included.\<close>

fun split_sep :: "char \<Rightarrow> string \<Rightarrow> string \<Rightarrow> string list" where
  "split_sep sep cur [] = [cur]"
| "split_sep sep cur (c # cs) =
     (if c = sep then cur # split_sep sep [] cs else split_sep sep (cur @ [c]) cs)"

text \<open>
  What \<^verbatim>\<open>bulk_add_from_csv\<close> takes from outside the repository: the built-in
  conversions \<^verbatim>\<open>int\<close> and \<^verbatim>\<open>float\<close> (the value they return for a field, or
  the exception they raise), the clock reading at the \<open>k\<close>-th record created, and the
  address of the \<open>k\<close>-th dictionary created.
\<close>

record environment =
  int_builtin :: "pyval \<Rightarrow> error + pyval"
  float_builtin :: "pyval \<Rightarrow> error + pyval"
  clock :: "nat \<Rightarrow> string"
  allocator :: "nat \<Rightarrow> ref"

text \<open>
  The record built from one row that has a title and a URL, in the order of the source:
  the dictionary display first (its conversions may raise), then the optional metrics,
  the upload date and the thumbnail.
\<close>

definition csv_video_info :: "environment \<Rightarrow> nat \<Rightarrow> pydict \<Rightarrow> error + pydict" where
  "csv_video_info env k row =
     bind (subscript (PDict row) ''title'') (\<lambda>title.
     bind (subscript (PDict row) ''url'') (\<lambda>url.
     bind (int_builtin env (dict_get row ''views'' (PInt 0))) (\<lambda>views.
     bind (int_builtin env (dict_get row ''likes'' (PInt 0))) (\<lambda>likes.
     bind (int_builtin env (dict_get row ''comments'' (PInt 0))) (\<lambda>comments.
     let video_info =
           [(''title'', title),
            (''url'', url),
            (''channel'', dict_get row ''channel'' (PStr [])),
            (''views'', views),
            (''likes'', likes),
            (''comments'', comments),
            (''description'', dict_get row ''description'' (PStr [])),
            (''transcript'', dict_get row ''transcript'' (PStr [])),
            (''date_added'', PStr (clock env k))]
     in
     bind (if has_key row ''ctr''
           then bind (subscript (PDict row) ''ctr'') (\<lambda>x.
                bind (float_builtin env x) (\<lambda>ctr. Inr (setitem video_info ''ctr'' ctr)))
           else Inr video_info) (\<lambda>video_info.
     bind (if has_key row ''retention''
           then bind (subscript (PDict row) ''retention'') (\<lambda>x.
                bind (float_builtin env x) (\<lambda>retention. Inr (setitem video_info ''retention'' retention)))
           else Inr video_info) (\<lambda>video_info.
     bind (if has_key row ''upload_date''
           then bind (subscript (PDict row) ''upload_date'') (\<lambda>x.
                  Inr (setitem video_info ''upload_date'' x))
           else Inr video_info) (\<lambda>video_info.
       if has_key row ''thumbnail_colors''
       then bind (subscript (PDict row) ''thumbnail_colors'') (\<lambda>x.
            bind (as_str x) (\<lambda>colors.
            bind (as_str (dict_get row ''thumbnail_has_face'' (PStr []))) (\<lambda>face.
            bind (as_str (dict_get row ''thumbnail_has_text'' (PStr []))) (\<lambda>txt.
              Inr (setitem video_info ''thumbnail''
                     (PDict [(''colors'', PList (map PStr (split_sep CHR '','' [] colors))),
                             (''has_face'', PBool (lower face = ''true'')),
                             (''has_text'', PBool (lower txt = ''true''))]))))))
       else Inr video_info))))))))"

text \<open>
  The loop over the rows, with the number of records added so far. A row without a title
  or a URL is skipped. An exception leaves the loop at once; the records appended before
  it stay in the mapping.
\<close>

fun csv_loop :: "environment \<Rightarrow> string \<Rightarrow> pydict list \<Rightarrow> nat \<Rightarrow> world \<Rightarrow> (error + nat) \<times> world" where
  "csv_loop env nm [] k w = (Inr k, w)"
| "csv_loop env nm (row # rows) k w =
     (if \<not> has_key row ''title'' \<or> \<not> has_key row ''url'' then csv_loop env nm rows k w
      else (case csv_video_info env k row of
              Inl e \<Rightarrow> (Inl e, w)
            | Inr video_info \<Rightarrow>
                csv_loop env nm rows (k + 1)
                  (w\<lparr>heap := (heap w)(allocator env k := video_info),
                     competitor_data :=
                       map (\<lambda>(n, refs). if n = nm then (n, refs @ [allocator env k]) else (n, refs))
                         (competitor_data w)\<rparr>)))"

text \<open>
  The three results: \<^verbatim>\<open>Niche {niche} not found in database\<close>,
  \<^verbatim>\<open>Added {added_count} videos to {niche} database\<close> and
  \<^verbatim>\<open>Error adding videos from CSV: {str(e)}\<close>.
\<close>

datatype bulk_result = NicheNotFound string | BulkAdded nat string | BulkError error

text \<open>
  \<^verbatim>\<open>bulk_add_from_csv(csv_file, niche)\<close>. The file is given by what
  \<^verbatim>\<open>csv.DictReader\<close> makes of it: the rows it yields, each a dictionary from the
  column names to the fields, and the exception that ends the reading, if there is one
  (a file that cannot be opened yields no row and ends with its exception). The mapping
  is written to the store file only when the loop and the reading end without an
  exception.
\<close>

definition bulk_add_from_csv ::
  "environment \<Rightarrow> pydict list \<Rightarrow> error option \<Rightarrow> string \<Rightarrow> world \<Rightarrow> bulk_result \<times> world" where
  "bulk_add_from_csv env rows failure nm w =
     (if map_of (competitor_data w) nm = None then (NicheNotFound nm, w)
      else (case csv_loop env nm rows 0 w of
              (Inl e, w') \<Rightarrow> (BulkError e, w')
            | (Inr added_count, w') \<Rightarrow>
                (case failure of
                   Some e \<Rightarrow> (BulkError e, w')
                 | None \<Rightarrow> (BulkAdded added_count nm, save_competitor_data w'))))"

subsection \<open>Well-formed stores\<close>

text \<open>
  A store of Python dictionaries: the niche keys are distinct and every stored record is a
  proper dictionary.
\<close>

definition proper_world :: "world \<Rightarrow> bool" where
  "proper_world w =
     (distinct (map fst (competitor_data w))
      \<and> list_all (\<lambda>(n, refs). list_all (\<lambda>r. proper (PDict (heap w r))) refs) (competitor_data w))"

text \<open>A store whose records hold no tuple.\<close>

definition native_world :: "world \<Rightarrow> bool" where
  "native_world w =
     list_all (\<lambda>(n, refs). list_all (\<lambda>r. json_native (PDict (heap w r))) refs) (competitor_data w)"

text \<open>The records that stand somewhere in the mapping.\<close>

definition stored_refs :: "world \<Rightarrow> ref set" where
  "stored_refs w = (\<Union>(n, refs)\<in>set (competitor_data w). set refs)"

text \<open>
  A small store for the examples: one record under \<^verbatim>\<open>productivity\<close>, and a second
  dictionary that is not stored yet.
\<close>

definition example_world :: world where
  "example_world =
     \<lparr>heap = (\<lambda>r. if r = 0 then [(''title'', PStr ''Deep work'')]
                  else if r = 1 then [(''title'', PStr ''Sleep''), (''views'', PInt 7)]
                  else []),
      competitor_data = [(''productivity'', [0]), (''health_fitness'', []), (''ai_tech'', [])],
      db_file = None\<rparr>"

text \<open>A store over the three niches whose one record carries its tags as a tuple.\<close>

definition tuple_world :: world where
  "tuple_world =
     \<lparr>heap = (\<lambda>r. if r = 0
                  then [(''title'', PStr ''Deep work''), (''tags'', PTuple [PStr ''focus'', PStr ''habits''])]
                  else []),
      competitor_data = [(''productivity'', [0]), (''health_fitness'', []), (''ai_tech'', [])],
      db_file = None\<rparr>"

section \<open>Title pattern analysis\<close>

text \<open>
  \<^verbatim>\<open>CompetitorAnalyzer.analyze_title_patterns(niche)\<close>, over the mapping the analyzer
  holds. The formatted percentages in the recommendation texts (\<^verbatim>\<open>{x:.1f}\<close>) are kept
  as the numbers they print.
\<close>

text \<open>\<^verbatim>\<open>re.match(r'^\d+\s', s)\<close>: a run of digits at the start, then white space.\<close>

definition starts_with_number :: "string \<Rightarrow> bool" where
  "starts_with_number s =
     (takeWhile isdigit s \<noteq> []
      \<and> (case dropWhile isdigit s of [] \<Rightarrow> False | c # cs \<Rightarrow> isspace c))"

definition title_patterns_init :: "(string \<times> nat) list" where
  "title_patterns_init =
     [(''how_to'', 0), (''listicle'', 0), (''question'', 0), (''statement'', 0),
      (''i_personal'', 0), (''you_focused'', 0)]"

text \<open>The body of the loop over the titles: an if/elif chain, then two separate tests.\<close>

definition count_patterns :: "string \<Rightarrow> (string \<times> nat) list \<Rightarrow> (string \<times> nat) list" where
  "count_patterns title ps =
     (let title_lower = lower title;
          ps = (if startswith title_lower ''how to'' \<or> startswith title_lower ''how i''
                then bump ''how_to'' ps
                else if starts_with_number title_lower \<or> str_contains title_lower ''ways to''
                        \<or> str_contains title_lower ''tips for''
                then bump ''listicle'' ps
                else if endswith title_lower ''?'' \<or> startswith title_lower ''why''
                        \<or> startswith title_lower ''what''
                then bump ''question'' ps
                else ps);
          ps = (if startswith title_lower ''i '' \<or> str_contains title_lower ''i tried''
                   \<or> str_contains title_lower ''i tested''
                then bump ''i_personal'' ps else ps);
          ps = (if ''you'' \<in> set (split title_lower) \<or> ''your'' \<in> set (split title_lower)
                then bump ''you_focused'' ps else ps)
      in ps)"

definition title_pattern_counts :: "string list \<Rightarrow> (string \<times> nat) list" where
  "title_pattern_counts titles = fold count_patterns titles title_patterns_init"

text \<open>\<^verbatim>\<open>[video["title"] for video in videos]\<close>\<close>

fun titles_of :: "pydict list \<Rightarrow> error + pyval list" where
  "titles_of [] = Inr []"
| "titles_of (video # videos) =
     (case map_of video ''title'' of
        None \<Rightarrow> Inl KeyError
      | Some t \<Rightarrow> bind (titles_of videos) (\<lambda>ts. Inr (t # ts)))"

text \<open>The titles as strings: \<^verbatim>\<open>title.split()\<close> needs each of them to be one.\<close>

fun strings_of :: "pyval list \<Rightarrow> error + string list" where
  "strings_of [] = Inr []"
| "strings_of (t # ts) = bind (as_str t) (\<lambda>s. bind (strings_of ts) (\<lambda>ss. Inr (s # ss)))"

text \<open>The percentage of every pattern.\<close>

fun percentages :: "(string \<times> nat) list \<Rightarrow> nat \<Rightarrow> error + (string \<times> rat) list" where
  "percentages [] n = Inr []"
| "percentages ((k, v) # ps) n =
     bind (truediv (of_nat v) (of_nat n)) (\<lambda>q.
     bind (percentages ps n) (\<lambda>rest.
       Inr ((k, q * 100) # rest)))"

text \<open>
  \<^verbatim>\<open>re.findall(r'\b[a-z]{3,15}\b', text)\<close>: the maximal runs of word characters that
  are three to fifteen lower-case letters.
\<close>

definition is_word_char :: "char \<Rightarrow> bool" where
  "is_word_char c =
     (c \<in> set lower_letters \<or> c \<in> set upper_letters \<or> isdigit c \<or> c = CHR ''_'')"

fun word_runs :: "string \<Rightarrow> string \<Rightarrow> string list" where
  "word_runs cur [] = (if cur = [] then [] else [cur])"
| "word_runs cur (c # cs) =
     (if is_word_char c then word_runs (cur @ [c]) cs
      else if cur = [] then word_runs [] cs else cur # word_runs [] cs)"

definition find_words :: "string \<Rightarrow> string list" where
  "find_words s =
     filter (\<lambda>w. list_all (\<lambda>c. c \<in> set lower_letters) w \<and> 3 \<le> length w \<and> length w \<le> 15)
       (word_runs [] s)"

text \<open>\<^verbatim>\<open>sum(v["ctr"] for v in vs) / max(len(vs), 1)\<close>\<close>

definition avg_ctr :: "pydict list \<Rightarrow> error + rat" where
  "avg_ctr vs =
     bind (py_sum (map (\<lambda>v. dict_get v ''ctr'' PNone) vs) 0) (\<lambda>total.
       truediv total (of_nat (max (length vs) 1)))"

record ctr_comparison =
  how_to_avg_ctr :: rat
  other_avg_ctr :: rat
  difference :: rat

text \<open>
  The loop \<^verbatim>\<open>for wc in range(3, 15)\<close>: the average click-through rate of the videos
  whose title has \<open>wc\<close> words, for each word count that occurs.
\<close>

fun word_count_rows :: "nat list \<Rightarrow> (string \<times> pydict) list \<Rightarrow> error + (nat \<times> rat) list" where
  "word_count_rows [] vs = Inr []"
| "word_count_rows (wc # wcs) vs =
     (let matches = map snd (filter (\<lambda>(t, v). length (split t) = wc) vs) in
      if matches \<noteq> [] then
        bind (py_sum (map (\<lambda>v. dict_get v ''ctr'' PNone) matches) 0) (\<lambda>total.
        bind (truediv total (of_nat (length matches))) (\<lambda>a.
        bind (word_count_rows wcs vs) (\<lambda>rest.
          Inr ((wc, a) # rest))))
      else word_count_rows wcs vs)"

text \<open>
  The performance block: nothing when no video has a \<^verbatim>\<open>ctr\<close> field, otherwise the
  comparison of the titles that start with "how to" with the others, and the rows by
  word count. The videos come with their titles.
\<close>

definition performance :: "(string \<times> pydict) list \<Rightarrow> error + (ctr_comparison \<times> (nat \<times> rat) list) option" where
  "performance titled =
     (let videos_with_ctr = filter (\<lambda>(t, v). has_key v ''ctr'') titled in
      if videos_with_ctr = [] then Inr None
      else
        bind (avg_ctr (map snd (filter (\<lambda>(t, v). startswith (lower t) ''how to'') videos_with_ctr)))
          (\<lambda>avg_howto_ctr.
        bind (avg_ctr (map snd (filter (\<lambda>(t, v). \<not> startswith (lower t) ''how to'') videos_with_ctr)))
          (\<lambda>avg_other_ctr.
        bind (word_count_rows [3 ..< 15] videos_with_ctr) (\<lambda>word_count_correlation.
          Inr (Some (\<lparr>how_to_avg_ctr = avg_howto_ctr, other_avg_ctr = avg_other_ctr,
                       difference = avg_howto_ctr - avg_other_ctr\<rparr>,
                     word_count_correlation))))))"

text \<open>
  The recommendations, each with the numbers and names its text prints: "Use 'How To'
  format" with the difference, "Avoid 'How To' format" with the negated difference,
  "Aim for n words", "Consider alternatives to ... format" and "Experiment with ...
  format" with the pattern name and its percentage.
\<close>

datatype recommendation =
    UseHowTo rat
  | AvoidHowTo rat
  | AimForWords nat
  | Saturation string rat
  | Opportunity string rat

text \<open>\<^verbatim>\<open>min(patterns.items(), key=lambda x: x[1])\<close>: the first item with the least value.\<close>

fun min_item :: "string \<times> 'a::linorder \<Rightarrow> (string \<times> 'a) list \<Rightarrow> string \<times> 'a" where
  "min_item best [] = best"
| "min_item best (x # xs) = min_item (if snd x < snd best then x else best) xs"

definition spaced :: "string \<Rightarrow> string" where
  "spaced s = map (\<lambda>c. if c = CHR ''_'' then CHR '' '' else c) s"

definition generate_title_pattern_recommendations ::
  "(string \<times> rat) list \<Rightarrow> (ctr_comparison \<times> (nat \<times> rat) list) option \<Rightarrow> error + recommendation list" where
  "generate_title_pattern_recommendations patterns performance_correlation =
     (let by_difference =
            (case performance_correlation of
               None \<Rightarrow> []
             | Some (cmp, rows) \<Rightarrow>
                 if difference cmp > 1 then [UseHowTo (difference cmp)]
                 else if difference cmp < - 1 then [AvoidHowTo (- difference cmp)]
                 else []);
          by_word_count =
            (case performance_correlation of
               None \<Rightarrow> []
             | Some (cmp, rows) \<Rightarrow>
                 (case sort_key (\<lambda>(wc, a). - a) rows of
                    [] \<Rightarrow> []
                  | (best_wc, a) # others \<Rightarrow> [AimForWords best_wc]))
      in case patterns of
           [] \<Rightarrow> Inl ValueError
         | p # ps \<Rightarrow>
             let top_pattern = max_item p ps; low_pattern = min_item p ps in
             Inr (by_difference @ by_word_count
                  @ (if snd top_pattern > 40
                     then [Saturation (spaced (fst top_pattern)) (snd top_pattern)] else [])
                  @ (if snd low_pattern < 10
                     then [Opportunity (spaced (fst low_pattern)) (snd low_pattern)] else [])))"

record title_analysis =
  total_videos_analyzed :: nat
  average_word_count :: rat
  pattern_usage :: "(string \<times> rat) list"
  common_words :: "(string \<times> nat) list"
  performance_correlation :: "(ctr_comparison \<times> (nat \<times> rat) list) option"
  pattern_recommendations :: "recommendation list"

text \<open>
  What the method returns: the dictionary \<^verbatim>\<open>{"status": "error", "message": ...}\<close>
  with its message, or the analysis.
\<close>

datatype title_report = StatusError string | TitleAnalysis title_analysis

definition analyze_title_patterns :: "world \<Rightarrow> string \<Rightarrow> error + title_report" where
  "analyze_title_patterns w nm =
     (case map_of (view w) nm of
        None \<Rightarrow> Inr (StatusError (''No data available for niche '' @ nm))
      | Some [] \<Rightarrow> Inr (StatusError (''No data available for niche '' @ nm))
      | Some (v # vs) \<Rightarrow>
          let videos = v # vs in
          bind (titles_of videos) (\<lambda>title_values.
          bind (strings_of title_values) (\<lambda>titles.
          bind (truediv (of_nat (sum_list (map (\<lambda>t. length (split t)) titles)))
                  (of_nat (max (length titles) 1))) (\<lambda>avg_word_count.
          bind (percentages (title_pattern_counts titles) (length titles)) (\<lambda>pattern_percentages.
          bind (performance (zip titles videos)) (\<lambda>correlation.
          bind (generate_title_pattern_recommendations pattern_percentages correlation) (\<lambda>recs.
            Inr (TitleAnalysis
                  \<lparr>total_videos_analyzed = length titles,
                   average_word_count = avg_word_count,
                   pattern_usage = pattern_percentages,
                   common_words = top_keywords (fold count_word (find_words (lower (join '' '' titles))) []),
                   performance_correlation = correlation,
                   pattern_recommendations = recs\<rparr>))))))))"

section \<open>Enhanced analysis\<close>

text \<open>
  What \<^verbatim>\<open>DataIntegrationModule.run_enhanced_analysis\<close> returns: a failure dictionary
  with its error text (the niche has no data), a failure dictionary made from a caught
  exception, with its message, or the success dictionary with the name of the analysis
  file, the number of videos and the summary.
\<close>

datatype enhanced_result =
    NoData string
  | Caught error string
  | Success string nat summary

text \<open>
  The method reads the store file itself. Everything is inside \<^verbatim>\<open>try\<close>, so an
  exception becomes a result. The second component is the file the method writes, with
  the document written to it; writing is taken to succeed.
\<close>

definition run_enhanced_analysis ::
  "string \<Rightarrow> world \<Rightarrow> string \<Rightarrow> enhanced_result \<times> (string \<times> analysis) option" where
  "run_enhanced_analysis now w nm =
     (case db_file w of
        None \<Rightarrow> (Caught FileNotFoundError ''Failed to run enhanced analysis'', None)
      | Some doc \<Rightarrow>
          (case map_of (decode_db doc) nm of
             None \<Rightarrow> (NoData (''No data available for niche: '' @ nm), None)
           | Some [] \<Rightarrow> (NoData (''No data available for niche: '' @ nm), None)
           | Some (v # vs) \<Rightarrow>
               (case analyze_content_dna now (v # vs) nm of
                  Inl e \<Rightarrow> (Caught e ''Failed to run enhanced analysis'', None)
                | Inr doc \<Rightarrow>
                    let analysis_file = ''data/enhanced_analysis_'' @ nm @ ''.json'' in
                    (Success analysis_file (length (v # vs)) (summary doc),
                     Some (analysis_file, doc)))))"

subsection \<open>Failure results and the example titles\<close>

text \<open>A result whose \<^verbatim>\<open>success\<close> field is false.\<close>

definition is_failure :: "enhanced_result \<Rightarrow> bool" where
  "is_failure r = (case r of Success f n s \<Rightarrow> False | _ \<Rightarrow> True)"

text \<open>The three titles of the example, and a store that holds them under one niche.\<close>

definition example_titles :: "string list" where
  "example_titles = [''How to Focus Better'', ''5 Tips for Sleep'', ''Why Diets Fail?'']"

definition titles_world :: world where
  "titles_world =
     \<lparr>heap = (\<lambda>r. if r = 0 then [(''title'', PStr ''How to Focus Better'')]
                  else if r = 1 then [(''title'', PStr ''5 Tips for Sleep'')]
                  else [(''title'', PStr ''Why Diets Fail?'')]),
      competitor_data = [(''productivity'', [0, 1, 2]), (''health_fitness'', []), (''ai_tech'', [])],
      db_file = None\<rparr>"

section \<open>Properties\<close>

subsection \<open>Exceptions\<close>

lemma bind_Inr_iff: "bind m f = Inr y \<longleftrightarrow> (\<exists>x. m = Inr x \<and> f x = Inr y)"
  by (cases m) (simp_all add: bind_def)

lemma bind_Inl_iff: "bind m f = Inl e \<longleftrightarrow> m = Inl e \<or> (\<exists>x. m = Inr x \<and> f x = Inl e)"
  by (cases m) (simp_all add: bind_def)

lemma bind_Inr [simp]: "bind (Inr x) f = f x"
  by (simp add: bind_def)

lemma bind_Inl [simp]: "bind (Inl e) f = Inl e"
  by (simp add: bind_def)

lemma num_of_no_zdiv: "num_of v \<noteq> Inl ZeroDivisionError"
  by (cases v) (simp_all add: num_of_def)

lemma as_dict_no_zdiv: "as_dict v \<noteq> Inl ZeroDivisionError"
  by (cases v) (simp_all add: as_dict_def)

lemma as_str_no_zdiv: "as_str v \<noteq> Inl ZeroDivisionError"
  by (cases v) (simp_all add: as_str_def)

lemma truediv_pos: "0 < b \<Longrightarrow> truediv a b = Inr (a / b)"
  by (simp add: truediv_def)

subsection \<open>Engagement ratios and a zero view count\<close>

lemma engagement_metrics_zero:
  "num_of (dict_get engagement ''view_count'' (PInt 0)) = Inr 0 \<Longrightarrow>
   engagement_metrics engagement = Inr []"
  by (simp add: engagement_metrics_def)

lemma engagement_patterns_zero:
  "num_of (dict_get engagement ''view_count'' (PInt 0)) = Inr 0 \<Longrightarrow>
   engagement_patterns engagement = Inr []"
  by (simp add: engagement_patterns_def)

lemma pattern_names_no_zdiv: "pattern_names ps \<noteq> Inl ZeroDivisionError"
  by (induction ps) (auto simp: bind_Inl_iff as_dict_no_zdiv)

lemma py_iter_no_zdiv: "py_iter v \<noteq> Inl ZeroDivisionError"
  by (cases v) (simp_all add: py_iter_def)

lemma pattern_data_no_zdiv: "pattern_data acc ps \<noteq> Inl ZeroDivisionError"
  by (induction acc ps rule: pattern_data.induct)
     (auto simp: bind_Inl_iff pattern_names_no_zdiv py_iter_no_zdiv)

lemma infer_face_presence_no_zdiv: "infer_face_presence t n \<noteq> Inl ZeroDivisionError"
  by (auto simp: infer_face_presence_def bind_Inl_iff as_str_no_zdiv)

text \<open>The division is only reached under the test \<open>view_count > 0\<close>.\<close>

lemma engagement_metrics_no_zdiv: "engagement_metrics e \<noteq> Inl ZeroDivisionError"
  by (auto simp: engagement_metrics_def bind_Inl_iff num_of_no_zdiv truediv_pos)

lemma engagement_patterns_no_zdiv: "engagement_patterns e \<noteq> Inl ZeroDivisionError"
  by (auto simp: engagement_patterns_def bind_Inl_iff num_of_no_zdiv truediv_pos)

lemma transform_no_zdiv: "transform_to_competitor_format a n \<noteq> Inl ZeroDivisionError"
  unfolding transform_to_competitor_format_def Let_def
  by (auto simp: bind_Inl_iff as_dict_no_zdiv infer_face_presence_no_zdiv
        engagement_metrics_no_zdiv pattern_data_no_zdiv split: pyval.splits)

lemma transform_zero_omits:
  assumes "map_of analysis ''metadata'' = Some (PDict metadata)"
      and "map_of metadata ''engagement'' = Some (PDict engagement)"
      and "num_of (dict_get engagement ''view_count'' (PInt 0)) = Inr 0"
      and "transform_to_competitor_format analysis nm = Inr v"
    shows "\<not> has_key v ''engagement_metrics''"
  using assms unfolding transform_to_competitor_format_def Let_def
  by (auto simp: bind_Inr_iff dict_get_def as_dict_def has_key_def engagement_metrics_zero
        split: if_splits pyval.splits)

text \<open>
  C9. When the engagement dictionary of an analysis has a view count of 0, the
  transformation into a competitor record does not raise \<^verbatim>\<open>ZeroDivisionError\<close>, a
  record it returns has no \<^verbatim>\<open>engagement_metrics\<close> field (so neither
  \<^verbatim>\<open>like_ratio\<close> nor \<^verbatim>\<open>comment_ratio\<close>), and the pattern identification
  appends no engagement-pattern entry.
\<close>

theorem zero_views_no_division:
  assumes "map_of analysis ''metadata'' = Some (PDict metadata)"
      and "map_of metadata ''engagement'' = Some (PDict engagement)"
      and "num_of (dict_get engagement ''view_count'' (PInt 0)) = Inr 0"
    shows "transform_to_competitor_format analysis nm \<noteq> Inl ZeroDivisionError
         \<and> (\<forall>v. transform_to_competitor_format analysis nm = Inr v
                \<longrightarrow> \<not> has_key v ''engagement_metrics'')
         \<and> engagement_patterns engagement = Inr []"
  using assms transform_no_zdiv transform_zero_omits engagement_patterns_zero by blast

lemmas str_defs = lower_def lower_char_def upper_letters_def lower_letters_def isdigit_def
  isspace_def

theorem zero_views_no_division_witness:
  "transform_to_competitor_format
     [(''video_id'', PStr ''abc''),
      (''metadata'', PDict [(''basic_info'', PDict [(''title'', PStr ''Zero views'')]),
                            (''engagement'', PDict [(''view_count'', PInt 0), (''like_count'', PInt 3)])])]
     ''ai_tech''
   = Inr [(''title'', PStr ''Zero views''), (''channel'', PStr []),
      (''url'', PStr []), (''video_id'', PStr ''abc''), (''views'', PInt 0),
      (''likes'', PInt 3), (''comments'', PInt 0),
      (''description'', PStr []),
      (''thumbnail'',
       PDict
        [(''has_face'', PBool False), (''has_text'', PBool True),
         (''colors'',
          PList [PStr ''blue'', PStr ''red'', PStr ''white''])]),
      (''upload_date'', PStr []), (''duration'', PInt 0),
      (''rich_data'',
       PDict
        [(''keywords'', PList []), (''category_id'', PStr []),
         (''has_caption'', PBool False)])]
   \<and> engagement_patterns [(''view_count'', PInt 0), (''like_count'', PInt 3)] = Inr []"
proof -
  let ?e = "[(''view_count'', PInt 0), (''like_count'', PInt 3)]"
  let ?m = "[(''basic_info'', PDict [(''title'', PStr ''Zero views'')]), (''engagement'', PDict ?e)]"
  let ?a = "[(''video_id'', PStr ''abc''), (''metadata'', PDict ?m)]"
  have h1: "map_of ?a ''metadata'' = Some (PDict ?m)" by simp
  have h2: "map_of ?m ''engagement'' = Some (PDict ?e)" by simp
  have h3: "num_of (dict_get ?e ''view_count'' (PInt 0)) = Inr 0"
    by (simp add: dict_get_def num_of_def)
  have ev: "\<exists>v. transform_to_competitor_format ?a ''ai_tech'' = Inr v"
    by (simp add: transform_to_competitor_format_def dict_get_def as_dict_def has_key_def
          infer_face_presence_def as_str_def engagement_metrics_def num_of_def str_defs)
  then obtain v where v: "transform_to_competitor_format ?a ''ai_tech'' = Inr v" ..
  from zero_views_no_division [OF h1 h2 h3, of "''ai_tech''"] v
  have "\<not> has_key v ''engagement_metrics''" and "engagement_patterns ?e = Inr []" by blast+
  moreover have "transform_to_competitor_format ?a ''ai_tech'' = Inr
     [(''title'', PStr ''Zero views''), (''channel'', PStr []),
      (''url'', PStr []), (''video_id'', PStr ''abc''), (''views'', PInt 0),
      (''likes'', PInt 3), (''comments'', PInt 0),
      (''description'', PStr []),
      (''thumbnail'',
       PDict
        [(''has_face'', PBool False), (''has_text'', PBool True),
         (''colors'',
          PList [PStr ''blue'', PStr ''red'', PStr ''white''])]),
      (''upload_date'', PStr []), (''duration'', PInt 0),
      (''rich_data'',
       PDict
        [(''keywords'', PList []), (''category_id'', PStr []),
         (''has_caption'', PBool False)])]"
    by (simp add: transform_to_competitor_format_def dict_get_def as_dict_def has_key_def
          infer_face_presence_def as_str_def engagement_metrics_def num_of_def str_defs)
  ultimately show ?thesis by simp
qed

subsection \<open>Script statistics\<close>

lemma subscript_Inr: "subscript c k = Inr v \<longleftrightarrow> ss_value k c = Some v"
  by (cases c) (auto simp: subscript_def ss_value_def split: option.splits)

lemma py_in_False: "py_in k c = Inr False \<Longrightarrow> ss_value k c = None"
  by (cases c) (auto simp: py_in_def ss_value_def has_key_def)

lemma num_of_num_value: "num_of x = Inr r \<Longrightarrow> num_value x = r"
  by (simp add: num_value_def)

lemma running_avg_Inr:
  assumes "running_avg key ss (a, n) = Inr (a', n')"
  shows "case ss_value key ss of
           None \<Rightarrow> a' = a \<and> n' = n
         | Some x \<Rightarrow> num_of x = Inr (num_value x) \<and> n' = n + 1
                     \<and> a' * of_nat n' = a * of_nat n + num_value x"
proof -
  from assms obtain present where p: "py_in key ss = Inr present"
    by (auto simp: running_avg_def bind_Inr_iff)
  show ?thesis
  proof (cases present)
    case False
    with p have "ss_value key ss = None" by (simp add: py_in_False)
    moreover from assms p False have "a' = a \<and> n' = n" by (simp add: running_avg_def)
    ultimately show ?thesis by simp
  next
    case True
    with assms p obtain v x where v: "subscript ss key = Inr v" and x: "num_of v = Inr x"
      and r: "truediv (a * of_nat n + x) (of_nat (n + 1)) = Inr a'" and n': "n' = n + 1"
      by (auto simp: running_avg_def bind_Inr_iff Let_def)
    from r have "a' = (a * of_nat n + x) / of_nat (n + 1)"
      by (auto simp: truediv_def split: if_splits)
    then have "a' * of_nat (n + 1) = a * of_nat n + x" by simp
    with v x n' show ?thesis by (simp add: subscript_Inr num_of_num_value)
  qed
qed

lemma running_pct_count:
  assumes "running_pct key ss (a, n) = Inr (a', n')"
  shows "n' = n + (case ss_value key ss of None \<Rightarrow> 0 | Some x \<Rightarrow> 1)"
proof -
  from assms obtain present where p: "py_in key ss = Inr present"
    by (auto simp: running_pct_def bind_Inr_iff)
  show ?thesis
  proof (cases present)
    case False
    with p have "ss_value key ss = None" by (simp add: py_in_False)
    moreover from assms p False have "a' = a \<and> n' = n" by (simp add: running_pct_def)
    ultimately show ?thesis by simp
  next
    case True
    with assms p obtain v where v: "subscript ss key = Inr v" and n': "n' = n + 1"
      by (auto simp: running_pct_def bind_Inr_iff Let_def split: if_splits)
    then show ?thesis by (simp add: subscript_Inr)
  qed
qed

lemma running_avg_rel:
  "running_avg key (dict_get video ''script_structure'' PNone) (a, n) = Inr (a', n') \<Longrightarrow>
   has_key video ''script_structure'' \<Longrightarrow> avg_rel key video (a, n) (a', n')"
  by (drule running_avg_Inr)
     (auto simp: avg_rel_def carried_def has_key_def dict_get_def split: option.splits)

lemma script_step_rel:
  assumes "script_step video (st, cnt) = Inr (st', cnt')"
  shows "avg_rel ''hook_word_count'' video
           (avg_hook_words st, hooks_count cnt) (avg_hook_words st', hooks_count cnt')"
    and "avg_rel ''section_count'' video
           (avg_sections st, sections_count cnt) (avg_sections st', sections_count cnt')"
    and "avg_rel ''words_per_minute'' video
           (avg_wpm st, wpm_count cnt) (avg_wpm st', wpm_count cnt')"
proof -
  show "avg_rel ''hook_word_count'' video
           (avg_hook_words st, hooks_count cnt) (avg_hook_words st', hooks_count cnt')"
  proof (cases "has_key video ''script_structure''")
    case False
    with assms show ?thesis
      by (auto simp: script_step_def avg_rel_def carried_def has_key_def)
  next
    case True
    with assms show ?thesis
      by (auto simp: script_step_def bind_Inr_iff Let_def intro: running_avg_rel)
  qed
  show "avg_rel ''section_count'' video
           (avg_sections st, sections_count cnt) (avg_sections st', sections_count cnt')"
  proof (cases "has_key video ''script_structure''")
    case False
    with assms show ?thesis
      by (auto simp: script_step_def avg_rel_def carried_def has_key_def)
  next
    case True
    with assms show ?thesis
      by (auto simp: script_step_def bind_Inr_iff Let_def intro: running_avg_rel)
  qed
  show "avg_rel ''words_per_minute'' video
           (avg_wpm st, wpm_count cnt) (avg_wpm st', wpm_count cnt')"
  proof (cases "has_key video ''script_structure''")
    case False
    with assms show ?thesis
      by (auto simp: script_step_def avg_rel_def carried_def has_key_def)
  next
    case True
    with assms show ?thesis
      by (auto simp: script_step_def bind_Inr_iff Let_def intro: running_avg_rel)
  qed
qed

lemma carried_values_Cons:
  "carried_values key (v # vs) =
     (case carried key v of None \<Rightarrow> carried_values key vs
      | Some x \<Rightarrow> num_value x # carried_values key vs)"
  by (simp add: carried_values_def List.map_filter_simps split: option.splits)

lemma script_loop_rel:
  assumes step: "\<And>v s s'. script_step v s = Inr s' \<Longrightarrow> avg_rel key v (p s) (p s')"
  shows "script_loop videos s = Inr s' \<Longrightarrow> loop_rel key videos (p s) (p s')"
proof (induction videos arbitrary: s)
  case Nil
  then show ?case by (simp add: loop_rel_def carried_values_def List.map_filter_simps)
next
  case (Cons v vs)
  then obtain m where m: "script_step v s = Inr m" and l: "script_loop vs m = Inr s'"
    by (auto simp: bind_Inr_iff)
  from step [OF m] have a: "avg_rel key v (p s) (p m)" .
  from Cons.IH [OF l] have b: "loop_rel key vs (p m) (p s')" .
  obtain a0 n0 where s0: "p s = (a0, n0)" by (cases "p s")
  obtain a1 n1 where s1: "p m = (a1, n1)" by (cases "p m")
  obtain a2 n2 where s2: "p s' = (a2, n2)" by (cases "p s'")
  let ?cv = "carried_values key vs"
  from b have "snd (p s') = snd (p m) + length ?cv"
    and "fst (p s') * of_nat (snd (p s')) = fst (p m) * of_nat (snd (p m)) + sum_list ?cv"
    and "?cv = [] \<longrightarrow> fst (p s') = fst (p m)"
    unfolding loop_rel_def by blast+
  then have n2: "n2 = n1 + length ?cv"
    and e2: "a2 * of_nat n2 = a1 * of_nat n1 + sum_list ?cv"
    and d2: "?cv = [] \<longrightarrow> a2 = a1"
    unfolding s1 s2 by simp_all
  show ?case
  proof (cases "carried key v")
    case None
    with a s0 s1 have "a1 = a0" "n1 = n0" by (simp_all add: avg_rel_def)
    with n2 e2 d2 have "n2 = n0 + length ?cv"
      and "a2 * of_nat n2 = a0 * of_nat n0 + sum_list ?cv" and "?cv = [] \<longrightarrow> a2 = a0"
      by simp_all
    then show ?thesis
      unfolding loop_rel_def s0 s2 by (simp add: carried_values_Cons None)
  next
    case (Some x)
    with a have "num_of x = Inr (num_value x) \<and> snd (p m) = snd (p s) + 1
        \<and> fst (p m) * of_nat (snd (p m)) = fst (p s) * of_nat (snd (p s)) + num_value x"
      by (auto simp: avg_rel_def)
    then have "snd (p m) = snd (p s) + 1"
      and "fst (p m) * of_nat (snd (p m)) = fst (p s) * of_nat (snd (p s)) + num_value x"
      by blast+
    then have "n1 = n0 + 1" and "a1 * of_nat n1 = a0 * of_nat n0 + num_value x"
      unfolding s0 s1 by simp_all
    with n2 e2 have "n2 = n0 + length (num_value x # ?cv)"
      and "a2 * of_nat n2 = a0 * of_nat n0 + sum_list (num_value x # ?cv)"
      by simp_all
    then show ?thesis
      unfolding loop_rel_def s0 s2 by (simp add: carried_values_Cons Some)
  qed
qed

lemma loop_rel_mean:
  assumes "loop_rel key videos (d, 0) (a, n)"
  shows "a = mean_or d (carried_values key videos)"
proof (cases "carried_values key videos = []")
  case True
  with assms show ?thesis by (simp add: loop_rel_def mean_or_def)
next
  case False
  with assms have "n = length (carried_values key videos)" and "n > 0"
    and "a * of_nat n = sum_list (carried_values key videos)"
    by (auto simp: loop_rel_def)
  then show ?thesis using False by (simp add: mean_or_def field_simps)
qed

lemma analyze_content_dna_InrD:
  assumes "analyze_content_dna now videos nm = Inr doc"
  obtains tw ts structs total avg_len st cnt eng tts dna where
    "title_loop videos ([], title_structures_init) = Inr (tw, ts)"
    "structure_stats ts (length videos) = Inr structs"
    "title_word_total videos = Inr total"
    "truediv (of_nat total) (of_nat (length videos)) = Inr avg_len"
    "script_loop videos (script_stats_init, counters_init) = Inr (st, cnt)"
    "engagement_analysis videos = Inr eng"
    "top_structure ts = Inr tts"
    "content_dna tts (length videos) st = Inr dna"
    "niche doc = nm" "video_count doc = length videos" "timestamp doc = now"
    "title_dna doc = \<lparr>title_keywords = top_keywords (fold count_word tw []),
                        structures = structs, avg_length = avg_len\<rparr>"
    "description_dna doc = []"
    "script_dna doc = \<lparr>stats = st, script_keywords = []\<rparr>"
    "engagement_factors doc = eng"
    "content_dna_patterns doc = dna"
    "summary doc = \<lparr>title_strategy =
                 ''Use '' @ fst tts @ '' structure with keywords: ''
                 @ join '', '' (map fst (take 5 (top_keywords (fold count_word tw [])))),
               pattern_count = length dna,
               top_patterns = map pattern (take 3 dna),
               has_script_dna = True\<rparr>"
  using assms unfolding analyze_content_dna_def Let_def
  by (auto simp: bind_Inr_iff)

text \<open>
  The incremental formula of the loop, \<^verbatim>\<open>(avg * (count - 1) + x) / count\<close>, read in
  exact arithmetic: the average it ends with is the arithmetic mean of the values of
  exactly the records whose script structure carries the key, and the default when no
  record carries it. This is a fact about the formula. The program evaluates it in binary
  floating point and rounds in every round, so the float it returns may differ from the
  mean in the last places; no statement about those floats is made here.
\<close>

lemma incremental_formula_is_mean:
  assumes "analyze_content_dna now videos nm = Inr doc"
  shows "avg_hook_words (stats (script_dna doc)) = mean_or 25 (carried_values ''hook_word_count'' videos)
       \<and> avg_sections (stats (script_dna doc)) = mean_or 5 (carried_values ''section_count'' videos)
       \<and> avg_wpm (stats (script_dna doc)) = mean_or 150 (carried_values ''words_per_minute'' videos)"
proof -
  from assms obtain st cnt where
    loop: "script_loop videos (script_stats_init, counters_init) = Inr (st, cnt)"
    and doc: "script_dna doc = \<lparr>stats = st, script_keywords = []\<rparr>"
    by (rule analyze_content_dna_InrD)
  have "loop_rel ''hook_word_count'' videos
          ((\<lambda>s. (avg_hook_words (fst s), hooks_count (snd s))) (script_stats_init, counters_init))
          ((\<lambda>s. (avg_hook_words (fst s), hooks_count (snd s))) (st, cnt))"
    by (rule script_loop_rel [OF _ loop]) (auto intro: script_step_rel)
  then have h: "avg_hook_words st = mean_or 25 (carried_values ''hook_word_count'' videos)"
    by (auto simp: script_stats_init_def counters_init_def intro: loop_rel_mean)
  have "loop_rel ''section_count'' videos
          ((\<lambda>s. (avg_sections (fst s), sections_count (snd s))) (script_stats_init, counters_init))
          ((\<lambda>s. (avg_sections (fst s), sections_count (snd s))) (st, cnt))"
    by (rule script_loop_rel [OF _ loop]) (auto intro: script_step_rel)
  then have s: "avg_sections st = mean_or 5 (carried_values ''section_count'' videos)"
    by (auto simp: script_stats_init_def counters_init_def intro: loop_rel_mean)
  have "loop_rel ''words_per_minute'' videos
          ((\<lambda>s. (avg_wpm (fst s), wpm_count (snd s))) (script_stats_init, counters_init))
          ((\<lambda>s. (avg_wpm (fst s), wpm_count (snd s))) (st, cnt))"
    by (rule script_loop_rel [OF _ loop]) (auto intro: script_step_rel)
  then have w: "avg_wpm st = mean_or 150 (carried_values ''words_per_minute'' videos)"
    by (auto simp: script_stats_init_def counters_init_def intro: loop_rel_mean)
  from h s w doc show ?thesis by simp
qed

lemmas dna_defs = analyze_content_dna_def dict_get_def as_str_def str_defs split_def
      count_structures_def title_structures_init_def bump_def top_keywords_def truediv_def script_step_def
      has_key_def running_avg_def running_pct_def py_in_def subscript_def truthy_def num_of_def
      script_stats_init_def counters_init_def engagement_analysis_def top_structure_def content_dna_def
      py_int_def show_int_def

text \<open>
  C2. The percentage of records with clear transitions is recomputed only in a round
  whose flag is true, with a counter that also counts the false flags: after one record
  with the flag true and one with the flag false the document reports 100, not 50; the
  same holds for \<^verbatim>\<open>cta_pct\<close>.
\<close>

theorem transitions_pct_ignores_false_flags:
  "map_sum id (\<lambda>doc. (transitions_pct (stats (script_dna doc)), cta_pct (stats (script_dna doc))))
     (analyze_content_dna now
        [[(''title'', PStr ''a''),
          (''script_structure'', PDict [(''has_clear_transitions'', PBool True), (''has_cta'', PBool True)])],
         [(''title'', PStr ''b''),
          (''script_structure'', PDict [(''has_clear_transitions'', PBool False), (''has_cta'', PBool False)])]]
        nm) = Inr (100, 100)"
  by (simp add: dna_defs)

subsection \<open>Content DNA patterns\<close>

lemma max_item_ge_best: "snd best \<le> snd (max_item best xs)"
proof (induction xs arbitrary: best)
  case Nil
  show ?case by simp
next
  case (Cons x xs)
  show ?case
  proof (cases "snd best < snd x")
    case True
    have "snd x \<le> snd (max_item x xs)" by (rule Cons.IH)
    with True show ?thesis by simp
  next
    case False
    then show ?thesis using Cons.IH [of best] by simp
  qed
qed

lemma max_item_ge_all: "y \<in> set xs \<Longrightarrow> snd y \<le> snd (max_item best xs)"
proof (induction xs arbitrary: best)
  case Nil
  then show ?case by simp
next
  case (Cons x xs)
  let ?b = "if snd best < snd x then x else best"
  have m: "max_item best (x # xs) = max_item ?b xs" by simp
  show ?case
  proof (cases "y = x")
    case True
    have "snd x \<le> snd ?b" by (simp add: not_less less_imp_le)
    also have "\<dots> \<le> snd (max_item ?b xs)" by (rule max_item_ge_best)
    finally show ?thesis unfolding m True .
  next
    case False
    with Cons.prems have "y \<in> set xs" by simp
    then show ?thesis unfolding m by (rule Cons.IH)
  qed
qed

lemma max_item_mem: "max_item best xs \<in> set (best # xs)"
proof (induction xs arbitrary: best)
  case Nil
  show ?case by simp
next
  case (Cons x xs)
  show ?case
  proof (cases "snd best < snd x")
    case True
    then show ?thesis using Cons.IH [of x] by simp
  next
    case False
    then show ?thesis using Cons.IH [of best] by auto
  qed
qed

lemma find_max_item:
  "find (\<lambda>y. snd (max_item best xs) \<le> snd y) (best # xs) = Some (max_item best xs)"
proof (induction xs arbitrary: best)
  case Nil
  show ?case by simp
next
  case (Cons x xs)
  show ?case
  proof (cases "snd best < snd x")
    case True
    then have m: "max_item best (x # xs) = max_item x xs" by simp
    have "snd x \<le> snd (max_item x xs)" by (rule max_item_ge_best)
    with True have "\<not> snd (max_item x xs) \<le> snd best" by simp
    then show ?thesis unfolding m using Cons.IH [of x] by simp
  next
    case False
    then have m: "max_item best (x # xs) = max_item best xs" by simp
    show ?thesis
    proof (cases "snd (max_item best xs) \<le> snd best")
      case True
      then show ?thesis unfolding m using Cons.IH [of best] by simp
    next
      case nb: False
      with False have "\<not> snd (max_item best xs) \<le> snd x" by simp
      with nb show ?thesis unfolding m using Cons.IH [of best] by simp
    qed
  qed
qed

lemma top_structure_dominant:
  assumes "top_structure items = Inr tts"
  shows "dominant items = Some tts"
proof -
  from assms obtain x xs where i: "items = x # xs" and t: "tts = max_item x xs"
    by (auto simp: top_structure_def split: list.splits)
  have "list_all (\<lambda>z. snd z \<le> snd y) (x # xs) \<longleftrightarrow> snd (max_item x xs) \<le> snd y" for y
  proof
    assume "list_all (\<lambda>z. snd z \<le> snd y) (x # xs)"
    with max_item_mem [of x xs] show "snd (max_item x xs) \<le> snd y"
      unfolding list_all_iff by blast
  next
    assume a: "snd (max_item x xs) \<le> snd y"
    have "snd z \<le> snd y" if "z \<in> set (x # xs)" for z
    proof (cases "z = x")
      case True
      with max_item_ge_best [of x xs] a show ?thesis by simp
    next
      case False
      with that have "z \<in> set xs" by simp
      from max_item_ge_all [OF this, of x] a show ?thesis by simp
    qed
    then show "list_all (\<lambda>z. snd z \<le> snd y) (x # xs)" unfolding list_all_iff by blast
  qed
  then have eq: "(\<lambda>y. list_all (\<lambda>z. snd z \<le> snd y) (x # xs)) = (\<lambda>y. snd (max_item x xs) \<le> snd y)"
    by blast
  show ?thesis unfolding dominant_def i t eq by (rule find_max_item)
qed

lemma bump_keys: "map fst (bump k d) = map fst d"
  by (induction d) (auto simp: bump_def)

lemma count_structures_keys: "map fst (count_structures t ts) = map fst ts"
  by (simp add: count_structures_def Let_def bump_keys)

lemma title_loop_keys:
  "title_loop videos (tw, ts) = Inr (tw', ts') \<Longrightarrow> map fst ts' = map fst ts"
  by (induction videos arbitrary: tw ts)
     (auto simp: bind_Inr_iff Let_def count_structures_keys)

lemma structure_stats_counts:
  "structure_stats ts n = Inr structs \<Longrightarrow> map (\<lambda>(k, c, p). (k, c)) structs = ts"
  by (induction ts arbitrary: structs) (auto simp: bind_Inr_iff)

lemma content_dna_patterns_shape:
  assumes "content_dna best n st = Inr dna"
  shows "map pattern dna =
           (if snd best > 0 then [fst best @ ''_structure''] else [])
         @ (if transitions_pct st > 50 then [''clear_transitions''] else [])
         @ (if cta_pct st > 50 then [''verbal_cta''] else [])
         @ [''hook_length'', ''speaking_pace'']"
  using assms by (auto simp: content_dna_def bind_Inr_iff split: if_splits)

lemma is_num_num_of: "is_num v \<Longrightarrow> \<exists>r. num_of v = Inr r"
  by (cases v) (simp_all add: is_num_def num_of_def)

lemma title_ok:
  "opt_field v ''title'' is_str \<Longrightarrow> \<exists>t. as_str (dict_get v ''title'' (PStr [])) = Inr t"
  by (auto simp: opt_field_def dict_get_def as_str_def is_str_def split: option.splits pyval.splits)

lemma title_loop_total:
  "list_all well_formed_video videos \<Longrightarrow> \<exists>r. title_loop videos acc = Inr r"
proof (induction videos arbitrary: acc)
  case Nil
  show ?case by simp
next
  case (Cons v vs)
  obtain tw ts where acc: "acc = (tw, ts)" by (cases acc)
  from Cons.prems have "opt_field v ''title'' is_str" by (simp add: well_formed_video_def)
  from title_ok [OF this] obtain t where t: "as_str (dict_get v ''title'' (PStr [])) = Inr t" ..
  from Cons.prems have "list_all well_formed_video vs" by simp
  from Cons.IH [OF this] show ?case unfolding acc by (simp add: t Let_def)
qed

lemma title_word_total_total:
  "list_all well_formed_video videos \<Longrightarrow> \<exists>r. title_word_total videos = Inr r"
proof (induction videos)
  case Nil
  show ?case by simp
next
  case (Cons v vs)
  from Cons.prems have "opt_field v ''title'' is_str" by (simp add: well_formed_video_def)
  from title_ok [OF this] obtain t where t: "as_str (dict_get v ''title'' (PStr [])) = Inr t" ..
  from Cons obtain r where "title_word_total vs = Inr r" by auto
  then show ?case by (simp add: t)
qed

lemma structure_stats_total: "n > 0 \<Longrightarrow> \<exists>r. structure_stats ts n = Inr r"
proof (induction ts)
  case Nil
  show ?case by simp
next
  case (Cons a ts)
  obtain k v where a: "a = (k, v)" by (cases a)
  from Cons obtain r where "structure_stats ts n = Inr r" by auto
  with Cons.prems show ?case unfolding a by (simp add: truediv_def)
qed

lemma running_avg_total:
  assumes "opt_field d key is_num"
  shows "\<exists>r. running_avg key (PDict d) (a, n) = Inr r"
proof (cases "map_of d key")
  case None
  then show ?thesis by (simp add: running_avg_def py_in_def has_key_def)
next
  case (Some x)
  with assms have "is_num x" by (simp add: opt_field_def)
  from is_num_num_of [OF this] obtain r where "num_of x = Inr r" ..
  with Some show ?thesis
    by (simp add: running_avg_def py_in_def has_key_def subscript_def truediv_def Let_def)
qed

lemma running_pct_total: "\<exists>r. running_pct key (PDict d) (a, n) = Inr r"
proof (cases "map_of d key")
  case None
  then show ?thesis by (simp add: running_pct_def py_in_def has_key_def)
next
  case (Some x)
  then show ?thesis
    by (simp add: running_pct_def py_in_def has_key_def subscript_def truediv_def Let_def)
qed

lemma script_step_total:
  assumes "well_formed_video v"
  shows "\<exists>r. script_step v st = Inr r"
proof -
  obtain s c where st: "st = (s, c)" by (cases st)
  show ?thesis
  proof (cases "map_of v ''script_structure''")
    case None
    then show ?thesis unfolding st by (simp add: script_step_def has_key_def)
  next
    case (Some ss)
    with assms have "well_formed_script ss" by (simp add: well_formed_video_def opt_field_def)
    then obtain d where d: "ss = PDict d"
      and h: "opt_field d ''hook_word_count'' is_num"
      and se: "opt_field d ''section_count'' is_num"
      and w: "opt_field d ''words_per_minute'' is_num"
      by (auto simp: well_formed_script_def split: pyval.splits)
    from running_avg_total [OF h] obtain r1 where
      r1: "running_avg ''hook_word_count'' (PDict d) (avg_hook_words s, hooks_count c) = Inr r1" ..
    from running_avg_total [OF se] obtain r2 where
      r2: "running_avg ''section_count'' (PDict d) (avg_sections s, sections_count c) = Inr r2" ..
    from running_avg_total [OF w] obtain r3 where
      r3: "running_avg ''words_per_minute'' (PDict d) (avg_wpm s, wpm_count c) = Inr r3" ..
    from running_pct_total obtain r4 where
      r4: "running_pct ''has_clear_transitions'' (PDict d) (transitions_pct s, transitions_count c) = Inr r4" ..
    from running_pct_total obtain r5 where
      r5: "running_pct ''has_cta'' (PDict d) (cta_pct s, cta_count c) = Inr r5" ..
    show ?thesis unfolding st
      by (cases r1; cases r2; cases r3; cases r4; cases r5)
         (simp add: script_step_def has_key_def dict_get_def Some d r1 r2 r3 r4 r5)
  qed
qed

lemma script_loop_total:
  "list_all well_formed_video videos \<Longrightarrow> \<exists>r. script_loop videos st = Inr r"
proof (induction videos arbitrary: st)
  case Nil
  show ?case by simp
next
  case (Cons v vs)
  from Cons.prems have "well_formed_video v" by simp
  from script_step_total [OF this] obtain m where m: "script_step v st = Inr m" ..
  from Cons.prems have "list_all well_formed_video vs" by simp
  from Cons.IH [OF this] show ?case by (simp add: m)
qed

lemma py_sum_total: "list_all is_num xs \<Longrightarrow> \<exists>r. py_sum xs acc = Inr r"
proof (induction xs arbitrary: acc)
  case Nil
  show ?case by simp
next
  case (Cons x xs)
  from Cons.prems have "is_num x" by simp
  from is_num_num_of [OF this] obtain r where r: "num_of x = Inr r" ..
  from Cons.prems have "list_all is_num xs" by simp
  from Cons.IH [OF this] show ?case by (simp add: r)
qed

lemma field_is_num:
  "opt_field v k is_num \<Longrightarrow> is_num (dict_get v k (PInt 0))"
  by (auto simp: opt_field_def dict_get_def is_num_def split: option.splits)

lemma engagement_analysis_total:
  assumes "list_all well_formed_video videos"
  shows "\<exists>r. engagement_analysis videos = Inr r"
proof (cases "length videos > 1")
  case False
  then show ?thesis by (simp add: engagement_analysis_def)
next
  case True
  show ?thesis
  proof (cases "filter (\<lambda>v. has_key v ''views'') videos")
    case Nil
    then show ?thesis by (simp add: engagement_analysis_def)
  next
    case (Cons first others)
    let ?vwe = "first # others"
    have "set ?vwe \<subseteq> set videos" unfolding Cons [symmetric] by auto
    with assms have wf: "list_all well_formed_video ?vwe" unfolding list_all_iff by blast
    then have "list_all is_num (map (\<lambda>v. dict_get v ''views'' (PInt 0)) ?vwe)"
      unfolding list_all_iff by (auto simp: well_formed_video_def intro: field_is_num)
    from py_sum_total [OF this] obtain a where
      a: "py_sum (map (\<lambda>v. dict_get v ''views'' (PInt 0)) ?vwe) 0 = Inr a" ..
    from wf have "list_all is_num (map (\<lambda>v. dict_get v ''likes'' (PInt 0)) ?vwe)"
      unfolding list_all_iff by (auto simp: well_formed_video_def intro: field_is_num)
    from py_sum_total [OF this] obtain b where
      b: "py_sum (map (\<lambda>v. dict_get v ''likes'' (PInt 0)) ?vwe) 0 = Inr b" ..
    from a b have a': "bind (num_of (dict_get first ''views'' (PInt 0)))
             (\<lambda>x. py_sum (map (\<lambda>v. dict_get v ''views'' (PInt 0)) others) (0 + x)) = Inr a"
      and b': "bind (num_of (dict_get first ''likes'' (PInt 0)))
             (\<lambda>x. py_sum (map (\<lambda>v. dict_get v ''likes'' (PInt 0)) others) (0 + x)) = Inr b"
      by simp_all
    show ?thesis using True
      by (simp add: engagement_analysis_def Cons Let_def a' b' truediv_def del: add_0)
  qed
qed

lemma content_dna_total: "n > 0 \<Longrightarrow> \<exists>r. content_dna tts n st = Inr r"
  by (simp add: content_dna_def truediv_def)

lemma title_loop_nonempty:
  assumes "title_loop videos ([], title_structures_init) = Inr (tw, ts)"
  shows "map fst ts = [''question'', ''number'', ''how_to'', ''list'', ''emotional'']"
  using title_loop_keys [OF assms] by (simp add: title_structures_init_def)

lemma analyze_content_dna_total:
  assumes "videos \<noteq> []" and "list_all well_formed_video videos"
  shows "\<exists>doc. analyze_content_dna now videos nm = Inr doc"
proof -
  from title_loop_total [OF assms(2)] obtain tw ts where
    tl: "title_loop videos ([], title_structures_init) = Inr (tw, ts)" by force
  from assms(1) have n: "length videos > 0" by simp
  from structure_stats_total [OF n] obtain structs where
    ss: "structure_stats ts (length videos) = Inr structs" ..
  from title_word_total_total [OF assms(2)] obtain total where
    tt: "title_word_total videos = Inr total" ..
  from script_loop_total [OF assms(2)] obtain st cnt where
    sl: "script_loop videos (script_stats_init, counters_init) = Inr (st, cnt)" by force
  from engagement_analysis_total [OF assms(2)] obtain eng where
    en: "engagement_analysis videos = Inr eng" ..
  from title_loop_nonempty [OF tl] obtain x xs where "ts = x # xs" by (cases ts) auto
  then have tp: "top_structure ts = Inr (max_item x xs)" by (simp add: top_structure_def)
  from content_dna_total [OF n] obtain dna where
    cd: "content_dna (max_item x xs) (length videos) st = Inr dna" ..
  show ?thesis using n
    by (simp add: analyze_content_dna_def tl ss tt sl en tp cd truediv_def Let_def)
qed

lemma analyze_nonempty:
  assumes "analyze_content_dna now videos nm = Inr doc"
  shows "videos \<noteq> []"
proof
  assume "videos = []"
  with assms show False
    by (simp add: analyze_content_dna_def title_structures_init_def truediv_def)
qed

text \<open>
  C7. For a non-empty list of well-formed records the aggregation returns a document. In
  every document it returns, the pattern list is, in this order: a title entry exactly
  when the highest structure count is positive, naming the first structure in the order
  question, number, how_to, list, emotional that reaches the highest count; a
  \<^verbatim>\<open>clear_transitions\<close> entry exactly when \<^verbatim>\<open>transitions_pct\<close> exceeds 50; a
  \<^verbatim>\<open>verbal_cta\<close> entry exactly when \<^verbatim>\<open>cta_pct\<close> exceeds 50; then the
  \<^verbatim>\<open>hook_length\<close> and \<^verbatim>\<open>speaking_pace\<close> entries; and nothing else.
\<close>

theorem content_dna_patterns_entries:
  "(videos \<noteq> [] \<and> list_all well_formed_video videos
      \<longrightarrow> (\<exists>doc. analyze_content_dna now videos nm = Inr doc))
   \<and> (\<forall>doc. analyze_content_dna now videos nm = Inr doc \<longrightarrow>
         map fst (structure_counts doc) = [''question'', ''number'', ''how_to'', ''list'', ''emotional'']
         \<and> (\<exists>k m. dominant (structure_counts doc) = Some (k, m)
              \<and> map pattern (content_dna_patterns doc) =
                  (if m > 0 then [k @ ''_structure''] else [])
                  @ (if transitions_pct (stats (script_dna doc)) > 50 then [''clear_transitions''] else [])
                  @ (if cta_pct (stats (script_dna doc)) > 50 then [''verbal_cta''] else [])
                  @ [''hook_length'', ''speaking_pace'']))"
proof (intro conjI allI impI)
  assume "videos \<noteq> [] \<and> list_all well_formed_video videos"
  then show "\<exists>doc. analyze_content_dna now videos nm = Inr doc"
    by (simp add: analyze_content_dna_total)
next
  fix doc assume a: "analyze_content_dna now videos nm = Inr doc"
  obtain tw ts structs st tts dna where
    tl: "title_loop videos ([], title_structures_init) = Inr (tw, ts)"
    and ss: "structure_stats ts (length videos) = Inr structs"
    and tp: "top_structure ts = Inr tts"
    and cd: "content_dna tts (length videos) st = Inr dna"
    and td: "structures (title_dna doc) = structs"
    and sd: "stats (script_dna doc) = st"
    and cp: "content_dna_patterns doc = dna"
  proof (rule analyze_content_dna_InrD [OF a])
    fix tw ts structs total avg_len st cnt eng tts dna
    assume "title_loop videos ([], title_structures_init) = Inr (tw, ts)"
      "structure_stats ts (length videos) = Inr structs"
      "top_structure ts = Inr tts"
      "content_dna tts (length videos) st = Inr dna"
      "title_dna doc = \<lparr>title_keywords = top_keywords (fold count_word tw []),
                        structures = structs, avg_length = avg_len\<rparr>"
      "script_dna doc = \<lparr>stats = st, script_keywords = []\<rparr>"
      "content_dna_patterns doc = dna"
    then show thesis by (intro that [of tw ts structs tts st dna]) simp_all
  qed
  from structure_stats_counts [OF ss] have sc: "structure_counts doc = ts"
    by (simp add: structure_counts_def td)
  show "map fst (structure_counts doc) = [''question'', ''number'', ''how_to'', ''list'', ''emotional'']"
    unfolding sc by (rule title_loop_nonempty [OF tl])
  show "\<exists>k m. dominant (structure_counts doc) = Some (k, m)
              \<and> map pattern (content_dna_patterns doc) =
                  (if m > 0 then [k @ ''_structure''] else [])
                  @ (if transitions_pct (stats (script_dna doc)) > 50 then [''clear_transitions''] else [])
                  @ (if cta_pct (stats (script_dna doc)) > 50 then [''verbal_cta''] else [])
                  @ [''hook_length'', ''speaking_pace'']"
  proof (intro exI conjI)
    show "dominant (structure_counts doc) = Some (fst tts, snd tts)"
      unfolding sc using top_structure_dominant [OF tp] by simp
    show "map pattern (content_dna_patterns doc) =
            (if snd tts > 0 then [fst tts @ ''_structure''] else [])
            @ (if transitions_pct (stats (script_dna doc)) > 50 then [''clear_transitions''] else [])
            @ (if cta_pct (stats (script_dna doc)) > 50 then [''verbal_cta''] else [])
            @ [''hook_length'', ''speaking_pace'']"
      unfolding cp sd by (rule content_dna_patterns_shape [OF cd])
  qed
qed

theorem content_dna_patterns_entries_witness:
  "list_all well_formed_video [[(''title'', PStr ''Top 5'')]]
   \<and> (\<exists>doc. analyze_content_dna ''2024-05-01 10:00:00'' [[(''title'', PStr ''Top 5'')]]
             ''productivity'' = Inr doc
         \<and> structure_counts doc =
             [(''question'', 0), (''number'', 1), (''how_to'', 0), (''list'', 1), (''emotional'', 0)]
         \<and> dominant (structure_counts doc) = Some (''number'', 1)
         \<and> map pattern (content_dna_patterns doc) =
             [''number_structure'', ''clear_transitions'', ''verbal_cta'', ''hook_length'',
              ''speaking_pace''])"
proof -
  let ?vs = "[[(''title'', PStr ''Top 5'')]]"
  let ?run = "analyze_content_dna ''2024-05-01 10:00:00'' ?vs ''productivity''"
  have wf: "list_all well_formed_video ?vs"
    by (simp add: well_formed_video_def well_formed_script_def opt_field_def is_str_def)
  note inst = content_dna_patterns_entries [of ?vs "''2024-05-01 10:00:00''" "''productivity''"]
  from inst wf obtain doc where d: "?run = Inr doc" by auto
  from inst d obtain k m where dm: "dominant (structure_counts doc) = Some (k, m)"
    and pt: "map pattern (content_dna_patterns doc) =
                  (if m > 0 then [k @ ''_structure''] else [])
                  @ (if transitions_pct (stats (script_dna doc)) > 50 then [''clear_transitions''] else [])
                  @ (if cta_pct (stats (script_dna doc)) > 50 then [''verbal_cta''] else [])
                  @ [''hook_length'', ''speaking_pace'']" by blast
  have "map_sum id (\<lambda>doc. (structure_counts doc, transitions_pct (stats (script_dna doc)),
                            cta_pct (stats (script_dna doc)))) ?run
        = Inr ([(''question'', 0), (''number'', 1), (''how_to'', 0), (''list'', 1), (''emotional'', 0)],
               60, 80)"
    by (simp add: dna_defs structure_counts_def)
  then have sc: "structure_counts doc =
        [(''question'', 0), (''number'', 1), (''how_to'', 0), (''list'', 1), (''emotional'', 0)]"
    and tr: "transitions_pct (stats (script_dna doc)) = 60"
    and ct: "cta_pct (stats (script_dna doc)) = 80" unfolding d by simp_all
  have dn: "dominant (structure_counts doc) = Some (''number'', 1)"
    unfolding sc by (simp add: dominant_def)
  with dm have "k = ''number''" "m = 1" by simp_all
  with pt tr ct have "map pattern (content_dna_patterns doc) =
             [''number_structure'', ''clear_transitions'', ''verbal_cta'', ''hook_length'',
              ''speaking_pace'']" by simp
  with wf d sc dn show ?thesis by (intro conjI exI [of _ doc]) assumption+
qed

subsection \<open>Determinism of the aggregation\<close>

lemma map_sum_bind: "map_sum id f (bind m g) = bind m (\<lambda>x. map_sum id f (g x))"
  by (cases m) simp_all

text \<open>
  C1 (as amended). Two runs of the aggregation on the same niche name and the same list of
  records raise the same exception or return documents that agree in every field except
  \<^verbatim>\<open>timestamp\<close>, which holds the clock reading of the run; with the same clock
  reading the documents are identical.
\<close>

theorem content_dna_agrees_up_to_timestamp:
  "analyze_content_dna now2 videos nm
     = map_sum id (\<lambda>doc. doc\<lparr>timestamp := now2\<rparr>) (analyze_content_dna now1 videos nm)"
  unfolding analyze_content_dna_def Let_def
  by (simp add: map_sum_bind case_prod_unfold)

text \<open>
  C1 as stated fails: the same record list analysed at two different seconds gives two
  different documents.
\<close>

theorem content_dna_timestamp_counterexample:
  "analyze_content_dna ''2024-05-01 10:00:00'' [[(''title'', PStr ''a'')]] ''ai_tech''
     \<noteq> analyze_content_dna ''2024-05-01 10:00:01'' [[(''title'', PStr ''a'')]] ''ai_tech''"
  by (simp add: dna_defs)

subsection \<open>The local video store\<close>

lemma setitem_fresh: "k \<notin> fst ` set d \<Longrightarrow> setitem d k v = d @ [(k, v)]"
  by (induction d) auto

lemma fold_setitem_distinct:
  "distinct (map fst (acc @ ps)) \<Longrightarrow> fold (\<lambda>(k, v) d. setitem d k v) ps acc = acc @ ps"
proof (induction ps arbitrary: acc)
  case Nil
  show ?case by simp
next
  case (Cons p ps)
  obtain k v where p: "p = (k, v)" by (cases p)
  from Cons.prems have "k \<notin> fst ` set acc" unfolding p by auto
  then have s: "setitem acc k v = acc @ [(k, v)]" by (rule setitem_fresh)
  from Cons.prems have "distinct (map fst ((acc @ [(k, v)]) @ ps))" unfolding p by simp
  from Cons.IH [OF this] show ?case unfolding p by (simp add: s)
qed

lemma dict_of_pairs_distinct: "distinct (map fst ps) \<Longrightarrow> dict_of_pairs ps = ps"
  unfolding dict_of_pairs_def using fold_setitem_distinct [of "[]" ps] by simp

lemma of_json_to_json: "proper v \<Longrightarrow> json_native v \<Longrightarrow> of_json (to_json v) = v"
proof (induction v)
  case (PList xs)
  then have "map (of_json \<circ> to_json) xs = xs"
    by (intro map_idI) (auto simp: list_all_iff)
  then show ?case by simp
next
  case (PDict d)
  from PDict.prems have dist: "distinct (map fst d)"
    and pr: "\<And>k v. (k, v) \<in> set d \<Longrightarrow> proper v \<and> json_native v"
    by (auto simp: list_all_iff)
  have c: "map (map_prod id of_json \<circ> map_prod id to_json) d = d"
  proof (rule map_idI)
    fix p assume m: "p \<in> set d"
    obtain k v where p: "p = (k, v)" by (cases p)
    from m p have "proper v" and "json_native v" by (auto dest: pr)
    moreover from m p have "v \<in> Basic_BNFs.snds p" by simp
    ultimately have "of_json (to_json v) = v" using PDict.IH m by blast
    then show "(map_prod id of_json \<circ> map_prod id to_json) p = p" unfolding p by simp
  qed
  show ?case using dist by (simp add: c dict_of_pairs_distinct)
qed simp_all

lemma record_roundtrip:
  assumes "proper (PDict r)" and "json_native (PDict r)"
  shows "dict_of_pairs (map (map_prod id of_json) (map (map_prod id to_json) r)) = r"
  using of_json_to_json [OF assms] by simp

lemma decode_encode_db:
  assumes "distinct (map fst db)"
    and "\<And>n recs r. (n, recs) \<in> set db \<Longrightarrow> r \<in> set recs \<Longrightarrow> proper (PDict r)"
    and "\<And>n recs r. (n, recs) \<in> set db \<Longrightarrow> r \<in> set recs \<Longrightarrow> json_native (PDict r)"
  shows "decode_db (encode_db db) = db"
proof -
  have "map (map_prod id (map (\<lambda>members. dict_of_pairs (map (map_prod id of_json) members)))
              \<circ> map_prod id (map (map (map_prod id to_json)))) db = db"
  proof (rule map_idI)
    fix p assume m: "p \<in> set db"
    obtain n recs where p: "p = (n, recs)" by (cases p)
    have "map ((\<lambda>members. dict_of_pairs (map (map_prod id of_json) members))
               \<circ> map (map_prod id to_json)) recs = recs"
    proof (rule map_idI)
      fix r assume r: "r \<in> set recs"
      from m have q: "(n, recs) \<in> set db" unfolding p .
      from q r have "proper (PDict r)" by (rule assms(2))
      moreover from q r have "json_native (PDict r)" by (rule assms(3))
      ultimately have "dict_of_pairs (map (map_prod id of_json) (map (map_prod id to_json) r)) = r"
        by (rule record_roundtrip)
      then
      show "((\<lambda>members. dict_of_pairs (map (map_prod id of_json) members))
               \<circ> map (map_prod id to_json)) r = r" by simp
    qed
    then show "(map_prod id (map (\<lambda>members. dict_of_pairs (map (map_prod id of_json) members)))
              \<circ> map_prod id (map (map (map_prod id to_json)))) p = p" unfolding p by simp
  qed
  then have "map (map_prod id (map (\<lambda>members. dict_of_pairs (map (map_prod id of_json) members))))
               (encode_db db) = db" by (simp add: encode_db_def)
  with assms(1) show ?thesis by (simp add: decode_db_def dict_of_pairs_distinct)
qed

text \<open>
  C8 (as amended). In a store of Python dictionaries (every key once, in the mapping and
  in every record) whose records hold, at every depth, only \<^verbatim>\<open>None\<close>, booleans,
  integers, floats, strings, lists and dictionaries, saving the mapping and reading it
  back gives a mapping equal to the saved one: the same niche keys in the same order,
  the same lists in the same order, the same fields in every record. It holds for every
  set of niche keys, so also for the three fixed niches with one more key added.
\<close>

theorem save_load_roundtrip:
  assumes "proper_world w" and "native_world w"
  shows "fst (load_competitor_data (save_competitor_data w)) = view w"
proof -
  from assms have "distinct (map fst (view w))"
    by (simp add: proper_world_def view_def comp_def)
  moreover have "proper (PDict r)" if "(n, recs) \<in> set (view w)" "r \<in> set recs" for n recs r
  proof -
    from that(1) obtain refs where a: "(n, refs) \<in> set (competitor_data w)"
      and b: "recs = map (heap w) refs" by (auto simp: view_def)
    from that(2) b obtain x where x: "x \<in> set refs" and r: "r = heap w x" by auto
    from assms(1) a have "list_all (\<lambda>r. proper (PDict (heap w r))) refs"
      unfolding proper_world_def list_all_iff by blast
    with x show ?thesis unfolding r list_all_iff by blast
  qed
  moreover have "json_native (PDict r)" if "(n, recs) \<in> set (view w)" "r \<in> set recs" for n recs r
  proof -
    from that(1) obtain refs where a: "(n, refs) \<in> set (competitor_data w)"
      and b: "recs = map (heap w) refs" by (auto simp: view_def)
    from that(2) b obtain x where x: "x \<in> set refs" and r: "r = heap w x" by auto
    from assms(2) a have "list_all (\<lambda>r. json_native (PDict (heap w r))) refs"
      unfolding native_world_def list_all_iff by blast
    with x show ?thesis unfolding r list_all_iff by blast
  qed
  ultimately have "decode_db (encode_db (view w)) = view w" by (rule decode_encode_db)
  then show ?thesis by (simp add: load_competitor_data_def save_competitor_data_def)
qed

lemma append_ref_keys:
  "map fst (map (\<lambda>(k, refs). if k = nm then (k, refs @ [r]) else (k, refs)) d) = map fst d"
  by (induction d) auto

lemma keys_after_add:
  "map fst (competitor_data (snd (manual_add_video now r nm w))) =
     (if nm \<in> set (map fst (competitor_data w)) then map fst (competitor_data w)
      else map fst (competitor_data w) @ [nm])"
proof (cases "map_of (competitor_data w) nm")
  case None
  then have n: "nm \<notin> set (map fst (competitor_data w))" by (simp add: map_of_eq_None_iff)
  have "competitor_data (snd (manual_add_video now r nm w)) =
          map (\<lambda>(k, refs). if k = nm then (k, refs @ [r]) else (k, refs)) (competitor_data w @ [(nm, [])])"
    unfolding manual_add_video_def Let_def save_competitor_data_def using None by simp
  then have "map fst (competitor_data (snd (manual_add_video now r nm w))) =
          map fst (competitor_data w @ [(nm, [])])"
    by (simp only: append_ref_keys)
  with n show ?thesis by simp
next
  case (Some refs)
  then have n: "nm \<in> set (map fst (competitor_data w))"
    by (metis map_of_eq_None_iff option.distinct(1) set_map)
  have "competitor_data (snd (manual_add_video now r nm w)) =
          map (\<lambda>(k, refs). if k = nm then (k, refs @ [r]) else (k, refs)) (competitor_data w)"
    unfolding manual_add_video_def Let_def save_competitor_data_def using Some by simp
  then have "map fst (competitor_data (snd (manual_add_video now r nm w))) =
          map fst (competitor_data w)"
    by (simp only: append_ref_keys)
  with n show ?thesis by simp
qed

lemma view_keys: "map fst (view w) = map fst (competitor_data w)"
  by (simp add: view_def comp_def)

lemma map_of_append_ref:
  "map_of (map (\<lambda>(k, refs). if k = nm then (k, refs @ [r]) else (k, refs)) d) m =
     (if m = nm then map_option (\<lambda>refs. refs @ [r]) (map_of d nm) else map_of d m)"
  by (induction d) auto

lemma map_of_view: "map_of (view w) m = map_option (map (heap w)) (map_of (competitor_data w) m)"
  unfolding view_def map_prod_def by (simp add: map_of_map)

lemma csv_loop_keys:
  "map fst (competitor_data (snd (csv_loop env nm rows k w))) = map fst (competitor_data w)"
proof (induction rows arbitrary: k w)
  case Nil
  then show ?case by simp
next
  case (Cons row rows)
  show ?case
  proof (cases "\<not> has_key row ''title'' \<or> \<not> has_key row ''url''")
    case True
    then show ?thesis using Cons.IH [of k w] by simp
  next
    case False
    show ?thesis
    proof (cases "csv_video_info env k row")
      case (Inl e)
      with False show ?thesis by simp
    next
      case (Inr info)
      with False show ?thesis
        by (auto simp: Cons.IH split: if_splits)
    qed
  qed
qed

lemma bulk_add_keys:
  "map fst (view (snd (bulk_add_from_csv env rows failure nm w))) = map fst (view w)"
proof -
  have "map fst (competitor_data (snd (bulk_add_from_csv env rows failure nm w)))
          = map fst (competitor_data (snd (csv_loop env nm rows 0 w)))
        \<or> snd (bulk_add_from_csv env rows failure nm w) = w"
    by (auto simp: bulk_add_from_csv_def save_competitor_data_def split: prod.splits sum.splits option.splits)
  then show ?thesis unfolding view_keys by (auto simp: csv_loop_keys)
qed

lemma save_view: "view (save_competitor_data w) = view w"
  by (simp add: view_def save_competitor_data_def)

lemma new_niche_record:
  assumes "nm \<notin> set (map fst (view w))"
  shows "map_of (view (snd (manual_add_video now r nm w))) nm
           = Some [setitem (heap w r) ''date_added'' (PStr now)]"
proof -
  let ?w = "snd (manual_add_video now r nm w)"
  from assms have n: "map_of (competitor_data w) nm = None"
    by (simp add: view_keys map_of_eq_None_iff)
  then have c: "competitor_data ?w =
      map (\<lambda>(k, refs). if k = nm then (k, refs @ [r]) else (k, refs)) (competitor_data w @ [(nm, [])])"
    unfolding manual_add_video_def Let_def save_competitor_data_def by simp
  have h: "heap ?w r = setitem (heap w r) ''date_added'' (PStr now)"
    unfolding manual_add_video_def Let_def save_competitor_data_def by simp
  from n have "map_of (competitor_data w @ [(nm, [])]) nm = Some []"
    by (simp add: map_add_def)
  then have "map_of (competitor_data ?w) nm = Some [r]"
    unfolding c map_of_append_ref by simp
  then show ?thesis unfolding map_of_view by (simp add: h)
qed

text \<open>
  C4 (as amended). Without a file, \<^verbatim>\<open>load_competitor_data\<close> returns the mapping
  whose keys are the three configured niches, each with an empty list, and writes it to
  the file. No later operation of the store removes a key:
  \<^verbatim>\<open>save_competitor_data\<close> and \<^verbatim>\<open>bulk_add_from_csv\<close> leave the keys as they
  are, and so does \<^verbatim>\<open>manual_add_video\<close> when its niche is a key; a niche that is
  not a key is added by \<^verbatim>\<open>manual_add_video\<close> as a new last key, with the stamped
  video as its only record.
\<close>

theorem niche_keys_grow_only:
  "(db_file w = None \<longrightarrow>
      fst (load_competitor_data w) = [(''productivity'', []), (''health_fitness'', []), (''ai_tech'', [])]
      \<and> db_file (snd (load_competitor_data w)) = Some (encode_db (fst (load_competitor_data w))))
   \<and> map fst (view (save_competitor_data w)) = map fst (view w)
   \<and> map fst (view (snd (bulk_add_from_csv env rows failure nm0 w))) = map fst (view w)
   \<and> (nm \<in> set (map fst (view w)) \<longrightarrow>
        map fst (view (snd (manual_add_video now r nm w))) = map fst (view w))
   \<and> (nm' \<notin> set (map fst (view w)) \<longrightarrow>
        map fst (view (snd (manual_add_video now r nm' w))) = map fst (view w) @ [nm']
        \<and> map_of (view (snd (manual_add_video now r nm' w))) nm'
            = Some [setitem (heap w r) ''date_added'' (PStr now)])"
proof -
  have a: "db_file w = None \<longrightarrow>
      fst (load_competitor_data w) = [(''productivity'', []), (''health_fitness'', []), (''ai_tech'', [])]
      \<and> db_file (snd (load_competitor_data w)) = Some (encode_db (fst (load_competitor_data w)))"
    by (simp add: load_competitor_data_def initial_db_def)
  have b: "map fst (view (save_competitor_data w)) = map fst (view w)"
    by (simp add: save_view)
  have c: "map fst (view (snd (bulk_add_from_csv env rows failure nm0 w))) = map fst (view w)"
    by (rule bulk_add_keys)
  have d: "nm \<in> set (map fst (view w)) \<longrightarrow>
        map fst (view (snd (manual_add_video now r nm w))) = map fst (view w)"
    unfolding view_keys keys_after_add by simp
  have e: "nm' \<notin> set (map fst (view w)) \<longrightarrow>
        map fst (view (snd (manual_add_video now r nm' w))) = map fst (view w) @ [nm']"
    unfolding view_keys keys_after_add by simp
  have f: "nm' \<notin> set (map fst (view w)) \<longrightarrow>
        map_of (view (snd (manual_add_video now r nm' w))) nm'
            = Some [setitem (heap w r) ''date_added'' (PStr now)]"
    by (simp add: new_niche_record)
  from a b c d e f show ?thesis by blast
qed

theorem niche_keys_grow_only_witness:
  "db_file example_world = None
   \<and> fst (load_competitor_data example_world)
       = [(''productivity'', []), (''health_fitness'', []), (''ai_tech'', [])]
   \<and> db_file (snd (load_competitor_data example_world))
       = Some [(''productivity'', []), (''health_fitness'', []), (''ai_tech'', [])]
   \<and> (\<forall>env rows failure.
         map fst (view (snd (bulk_add_from_csv env rows failure ''ai_tech'' example_world)))
           = [''productivity'', ''health_fitness'', ''ai_tech''])
   \<and> ''ai_tech'' \<in> set (map fst (view example_world))
   \<and> map fst (view (snd (manual_add_video ''2024-05-01 10:00:00'' 1 ''ai_tech'' example_world)))
       = [''productivity'', ''health_fitness'', ''ai_tech'']
   \<and> ''gaming'' \<notin> set (map fst (view example_world))
   \<and> map fst (view (snd (manual_add_video ''2024-05-01 10:00:00'' 1 ''gaming'' example_world)))
       = [''productivity'', ''health_fitness'', ''ai_tech'', ''gaming'']
   \<and> map_of (view (snd (manual_add_video ''2024-05-01 10:00:00'' 1 ''gaming'' example_world))) ''gaming''
       = Some [[(''title'', PStr ''Sleep''), (''views'', PInt 7),
                (''date_added'', PStr ''2024-05-01 10:00:00'')]]"
proof -
  have f: "db_file example_world = None" by (simp add: example_world_def)
  have k: "map fst (view example_world) = [''productivity'', ''health_fitness'', ''ai_tech'']"
    by (simp add: example_world_def view_def)
  have h: "setitem (heap example_world 1) ''date_added'' (PStr ''2024-05-01 10:00:00'')
             = [(''title'', PStr ''Sleep''), (''views'', PInt 7),
                (''date_added'', PStr ''2024-05-01 10:00:00'')]"
    by (simp add: example_world_def)
  have i: "encode_db [(''productivity'', []), (''health_fitness'', []), (''ai_tech'', [])]
             = [(''productivity'', []), (''health_fitness'', []), (''ai_tech'', [])]"
    by (simp add: encode_db_def)
  have "map fst (view (snd (bulk_add_from_csv env rows failure ''ai_tech'' example_world)))
           = [''productivity'', ''health_fitness'', ''ai_tech'']" for env rows failure
    using niche_keys_grow_only
      [where w = example_world and env = env and rows = rows and failure = failure
         and ?nm0.0 = "''ai_tech''"] k
    by simp
  moreover note niche_keys_grow_only
      [where w = example_world and now = "''2024-05-01 10:00:00''" and r = 1
         and nm = "''ai_tech''" and nm' = "''gaming''"]
  ultimately show ?thesis using f k h i by simp
qed

text \<open>
  C4 as stated fails: adding a video under the niche \<^verbatim>\<open>gaming\<close> to a store over the
  three configured niches leaves a store with four keys.
\<close>

theorem unknown_niche_adds_key_counterexample:
  "set (map fst (view example_world)) = {''productivity'', ''health_fitness'', ''ai_tech''}
   \<and> set (map fst (view (snd (manual_add_video ''2024-05-01 10:00:00'' 1 ''gaming'' example_world))))
       \<noteq> {''productivity'', ''health_fitness'', ''ai_tech''}"
proof -
  have "map fst (view (snd (manual_add_video ''2024-05-01 10:00:00'' 1 ''gaming'' example_world)))
          = [''productivity'', ''health_fitness'', ''ai_tech'', ''gaming'']"
    unfolding view_keys keys_after_add by (simp add: example_world_def)
  moreover have "map fst (view example_world) = [''productivity'', ''health_fitness'', ''ai_tech'']"
    by (simp add: example_world_def view_def)
  ultimately show ?thesis by (simp add: insert_eq_iff)
qed

lemma manual_add_video_world:
  assumes "map_of (competitor_data w) nm = Some refs"
  shows "heap (snd (manual_add_video now r nm w)) =
           (heap w)(r := setitem (heap w r) ''date_added'' (PStr now))"
    and "competitor_data (snd (manual_add_video now r nm w)) =
           map (\<lambda>(k, refs). if k = nm then (k, refs @ [r]) else (k, refs)) (competitor_data w)"
  using assms
  by (simp_all add: manual_add_video_def Let_def save_competitor_data_def)

lemma stored_refsI:
  "map_of (competitor_data w) m = Some refs \<Longrightarrow> x \<in> set refs \<Longrightarrow> x \<in> stored_refs w"
  unfolding stored_refs_def by (auto dest: map_of_SomeD)

text \<open>
  C10 (as amended). When the niche is a key and the dictionary given is not one of the
  stored records, \<^verbatim>\<open>manual_add_video\<close> leaves the list under every other key as it
  was, and the list under the niche is the old list followed by one element, the given
  record with \<^verbatim>\<open>date_added\<close> set.
\<close>

theorem manual_add_video_frame:
  assumes "map_of (competitor_data w) nm \<noteq> None" and "r \<notin> stored_refs w"
  shows "(\<forall>m. m \<noteq> nm \<longrightarrow>
            map_of (view (snd (manual_add_video now r nm w))) m = map_of (view w) m)
       \<and> (\<exists>old. map_of (view w) nm = Some old
              \<and> map_of (view (snd (manual_add_video now r nm w))) nm
                  = Some (old @ [setitem (heap w r) ''date_added'' (PStr now)]))"
proof -
  from assms(1) obtain refs where refs: "map_of (competitor_data w) nm = Some refs" by auto
  let ?w = "snd (manual_add_video now r nm w)"
  let ?stamped = "setitem (heap w r) ''date_added'' (PStr now)"
  note h = manual_add_video_world(1) [OF refs, of now r]
  note d = manual_add_video_world(2) [OF refs, of now r]
  have same: "map (heap ?w) xs = map (heap w) xs" if "map_of (competitor_data w) m = Some xs" for m xs
  proof (rule map_cong [OF refl])
    fix x assume "x \<in> set xs"
    with that have "x \<in> stored_refs w" by (rule stored_refsI)
    with assms(2) have "x \<noteq> r" by blast
    then show "heap ?w x = heap w x" unfolding h by simp
  qed
  have other: "map_of (view ?w) m = map_of (view w) m" if "m \<noteq> nm" for m
  proof (cases "map_of (competitor_data w) m")
    case None
    with that show ?thesis unfolding map_of_view d map_of_append_ref by simp
  next
    case (Some xs)
    with that same [OF Some] show ?thesis unfolding map_of_view d map_of_append_ref by simp
  qed
  have "map_of (view ?w) nm = Some (map (heap ?w) (refs @ [r]))"
    unfolding map_of_view d map_of_append_ref using refs by simp
  also have "map (heap ?w) (refs @ [r]) = map (heap w) refs @ [?stamped]"
    using same [OF refs] unfolding h by simp
  finally have "map_of (view ?w) nm = Some (map (heap w) refs @ [?stamped])" .
  moreover have "map_of (view w) nm = Some (map (heap w) refs)"
    unfolding map_of_view using refs by simp
  ultimately show ?thesis using other by blast
qed

theorem manual_add_video_frame_witness:
  "map_of (competitor_data example_world) ''ai_tech'' \<noteq> None \<and> 1 \<notin> stored_refs example_world
   \<and> map_of (view (snd (manual_add_video ''2024-05-01 10:00:00'' 1 ''ai_tech'' example_world)))
       ''productivity'' = Some [[(''title'', PStr ''Deep work'')]]
   \<and> map_of (view (snd (manual_add_video ''2024-05-01 10:00:00'' 1 ''ai_tech'' example_world)))
       ''ai_tech''
       = Some [[(''title'', PStr ''Sleep''), (''views'', PInt 7),
                (''date_added'', PStr ''2024-05-01 10:00:00'')]]"
proof -
  have a: "map_of (competitor_data example_world) ''ai_tech'' \<noteq> None"
    by (simp add: example_world_def)
  have b: "1 \<notin> stored_refs example_world"
    by (simp add: example_world_def stored_refs_def)
  have v: "map_of (view example_world) ''productivity'' = Some [[(''title'', PStr ''Deep work'')]]"
    "map_of (view example_world) ''ai_tech'' = Some []"
    by (simp_all add: example_world_def view_def)
  have s: "setitem (heap example_world 1) ''date_added'' (PStr ''2024-05-01 10:00:00'')
             = [(''title'', PStr ''Sleep''), (''views'', PInt 7),
                (''date_added'', PStr ''2024-05-01 10:00:00'')]"
    by (simp add: example_world_def)
  from manual_add_video_frame [OF a b, of "''2024-05-01 10:00:00''"] v s a b
  show ?thesis by auto
qed

text \<open>
  C10 as stated fails: when the dictionary given is already stored under another niche,
  the list under that niche changes, because the stored dictionary itself receives the
  new \<^verbatim>\<open>date_added\<close>.
\<close>

theorem stored_record_restamped_counterexample:
  "map_of (competitor_data example_world) ''ai_tech'' \<noteq> None
   \<and> ''productivity'' \<noteq> ''ai_tech''
   \<and> map_of (view example_world) ''productivity'' = Some [[(''title'', PStr ''Deep work'')]]
   \<and> map_of (view (snd (manual_add_video ''2024-05-01 10:00:00'' 0 ''ai_tech'' example_world)))
       ''productivity''
       = Some [[(''title'', PStr ''Deep work''), (''date_added'', PStr ''2024-05-01 10:00:00'')]]"
  by (simp add: example_world_def view_def manual_add_video_def save_competitor_data_def Let_def)

theorem save_load_roundtrip_witness:
  "proper_world (snd (manual_add_video ''2024-05-01 10:00:00'' 1 ''gaming'' example_world))
   \<and> native_world (snd (manual_add_video ''2024-05-01 10:00:00'' 1 ''gaming'' example_world))
   \<and> fst (load_competitor_data
            (save_competitor_data (snd (manual_add_video ''2024-05-01 10:00:00'' 1 ''gaming'' example_world))))
       = [(''productivity'', [[(''title'', PStr ''Deep work'')]]),
          (''health_fitness'', []),
          (''ai_tech'', []),
          (''gaming'', [[(''title'', PStr ''Sleep''), (''views'', PInt 7),
                        (''date_added'', PStr ''2024-05-01 10:00:00'')]])]"
proof -
  let ?w = "snd (manual_add_video ''2024-05-01 10:00:00'' 1 ''gaming'' example_world)"
  have p: "proper_world ?w"
    by (simp add: proper_world_def example_world_def manual_add_video_def save_competitor_data_def Let_def)
  have n: "native_world ?w"
    by (simp add: native_world_def example_world_def manual_add_video_def save_competitor_data_def Let_def)
  have v: "view ?w = [(''productivity'', [[(''title'', PStr ''Deep work'')]]),
          (''health_fitness'', []),
          (''ai_tech'', []),
          (''gaming'', [[(''title'', PStr ''Sleep''), (''views'', PInt 7),
                        (''date_added'', PStr ''2024-05-01 10:00:00'')]])]"
    by (simp add: view_def example_world_def manual_add_video_def save_competitor_data_def Let_def)
  from save_load_roundtrip [OF p n] p n v show ?thesis by simp
qed

text \<open>
  C8 as stated fails: a tuple in a record is JSON-serializable, is written as an array
  and is read back as a list, so the mapping read back differs from the one saved.
\<close>

theorem tuple_read_back_as_list_counterexample:
  "proper_world tuple_world
   \<and> view tuple_world =
       [(''productivity'',
           [[(''title'', PStr ''Deep work''), (''tags'', PTuple [PStr ''focus'', PStr ''habits''])]]),
        (''health_fitness'', []),
        (''ai_tech'', [])]
   \<and> fst (load_competitor_data (save_competitor_data tuple_world)) =
       [(''productivity'',
           [[(''title'', PStr ''Deep work''), (''tags'', PList [PStr ''focus'', PStr ''habits''])]]),
        (''health_fitness'', []),
        (''ai_tech'', [])]
   \<and> fst (load_competitor_data (save_competitor_data tuple_world)) \<noteq> view tuple_world"
  by (simp add: proper_world_def tuple_world_def view_def load_competitor_data_def
      save_competitor_data_def encode_db_def decode_db_def dict_of_pairs_def)

subsection \<open>Title patterns and empty niches\<close>

lemmas title_defs = title_pattern_counts_def count_patterns_def title_patterns_init_def bump_def
  starts_with_number_def endswith_def split_def str_defs

lemma example_counts:
  "title_pattern_counts [''How to Focus Better'', ''5 Tips for Sleep'', ''Why Diets Fail?''] =
     [(''how_to'', 1), (''listicle'', 1), (''question'', 1), (''statement'', 0),
      (''i_personal'', 0), (''you_focused'', 0)]"
  by (simp add: title_defs)

lemma empty_niche_title_patterns:
  assumes "map_of (view w) nm = None \<or> map_of (view w) nm = Some []"
  shows "analyze_title_patterns w nm = Inr (StatusError (''No data available for niche '' @ nm))"
  using assms by (auto simp: analyze_title_patterns_def)

lemma empty_niche_enhanced:
  assumes "db_file w = Some doc"
    and "map_of (decode_db doc) nm = None \<or> map_of (decode_db doc) nm = Some []"
  shows "run_enhanced_analysis now w nm = (NoData (''No data available for niche: '' @ nm), None)"
  using assms by (auto simp: run_enhanced_analysis_def)

lemma no_file_enhanced:
  assumes "db_file w = None"
  shows "run_enhanced_analysis now w nm =
           (Caught FileNotFoundError ''Failed to run enhanced analysis'', None)"
  using assms by (simp add: run_enhanced_analysis_def)

text \<open>
  C5. For a niche that is not a key of the mapping, or whose list is empty,
  \<^verbatim>\<open>analyze_title_patterns\<close> returns the error dictionary with its message and does
  not raise. \<^verbatim>\<open>run_enhanced_analysis\<close> returns a failure dictionary and writes no
  document when the file is missing or holds no record for the niche; with a file it is
  the dictionary with the text "No data available for niche: ...".
\<close>

theorem empty_niche_reports_error:
  "((map_of (view w) nm = None \<or> map_of (view w) nm = Some [])
      \<longrightarrow> analyze_title_patterns w nm = Inr (StatusError (''No data available for niche '' @ nm)))
   \<and> ((\<forall>doc. db_file w = Some doc \<longrightarrow>
          map_of (decode_db doc) nm = None \<or> map_of (decode_db doc) nm = Some [])
      \<longrightarrow> is_failure (fst (run_enhanced_analysis now w nm))
          \<and> snd (run_enhanced_analysis now w nm) = None)
   \<and> (\<forall>doc. db_file w = Some doc
          \<and> (map_of (decode_db doc) nm = None \<or> map_of (decode_db doc) nm = Some [])
      \<longrightarrow> fst (run_enhanced_analysis now w nm) = NoData (''No data available for niche: '' @ nm))"
proof (intro conjI impI allI)
  assume "map_of (view w) nm = None \<or> map_of (view w) nm = Some []"
  then show "analyze_title_patterns w nm = Inr (StatusError (''No data available for niche '' @ nm))"
    by (rule empty_niche_title_patterns)
next
  assume a: "\<forall>doc. db_file w = Some doc \<longrightarrow>
          map_of (decode_db doc) nm = None \<or> map_of (decode_db doc) nm = Some []"
  show "is_failure (fst (run_enhanced_analysis now w nm))"
  proof (cases "db_file w")
    case None
    then show ?thesis by (simp add: no_file_enhanced is_failure_def)
  next
    case (Some doc)
    with a have "map_of (decode_db doc) nm = None \<or> map_of (decode_db doc) nm = Some []" by simp
    from empty_niche_enhanced [OF Some this] show ?thesis by (simp add: is_failure_def)
  qed
  show "snd (run_enhanced_analysis now w nm) = None"
  proof (cases "db_file w")
    case None
    then show ?thesis by (simp add: no_file_enhanced)
  next
    case (Some doc)
    with a have "map_of (decode_db doc) nm = None \<or> map_of (decode_db doc) nm = Some []" by simp
    from empty_niche_enhanced [OF Some this] show ?thesis by simp
  qed
next
  fix doc
  assume "db_file w = Some doc
          \<and> (map_of (decode_db doc) nm = None \<or> map_of (decode_db doc) nm = Some [])"
  then show "fst (run_enhanced_analysis now w nm) = NoData (''No data available for niche: '' @ nm)"
    by (simp add: empty_niche_enhanced)
qed

theorem empty_niche_reports_error_witness:
  "map_of (view example_world) ''ai_tech'' = Some []
   \<and> analyze_title_patterns example_world ''ai_tech''
       = Inr (StatusError ''No data available for niche ai_tech'')
   \<and> db_file (save_competitor_data example_world) = Some (encode_db (view example_world))
   \<and> map_of (decode_db (encode_db (view example_world))) ''ai_tech'' = Some []
   \<and> fst (run_enhanced_analysis ''2024-05-01 10:00:00'' (save_competitor_data example_world) ''ai_tech'')
       = NoData ''No data available for niche: ai_tech''
   \<and> is_failure (fst (run_enhanced_analysis ''2024-05-01 10:00:00'' example_world ''ai_tech''))"
proof -
  have v: "map_of (view example_world) ''ai_tech'' = Some []"
    by (simp add: example_world_def view_def)
  have f: "db_file (save_competitor_data example_world) = Some (encode_db (view example_world))"
    by (simp add: save_competitor_data_def)
  have d: "map_of (decode_db (encode_db (view example_world))) ''ai_tech'' = Some []"
    by (simp add: example_world_def view_def encode_db_def decode_db_def dict_of_pairs_def)
  have n: "\<forall>doc. db_file example_world = Some doc \<longrightarrow>
          map_of (decode_db doc) ''ai_tech'' = None \<or> map_of (decode_db doc) ''ai_tech'' = Some []"
    by (simp add: example_world_def)
  note t1 = empty_niche_reports_error [of example_world "''ai_tech''" "''2024-05-01 10:00:00''"]
  note t2 = empty_niche_reports_error
              [of "save_competitor_data example_world" "''ai_tech''" "''2024-05-01 10:00:00''"]
  from t1 v have a: "analyze_title_patterns example_world ''ai_tech''
       = Inr (StatusError ''No data available for niche ai_tech'')" by simp
  from t1 n have b: "is_failure (fst (run_enhanced_analysis ''2024-05-01 10:00:00'' example_world ''ai_tech''))"
    by blast
  from t2 f d have c: "fst (run_enhanced_analysis ''2024-05-01 10:00:00'' (save_competitor_data example_world) ''ai_tech'')
       = NoData ''No data available for niche: ai_tech''" by simp
  from v a f d c b show ?thesis by blast
qed

lemma example_percentages:
  "percentages (title_pattern_counts example_titles) 3 =
     Inr [(''how_to'', 100 / 3), (''listicle'', 100 / 3), (''question'', 100 / 3),
          (''statement'', 0), (''i_personal'', 0), (''you_focused'', 0)]"
  unfolding example_titles_def example_counts by (simp add: truediv_def)

lemma titles_of_map:
  "list_all2 (\<lambda>v t. map_of v ''title'' = Some (PStr t)) videos titles \<Longrightarrow>
   titles_of videos = Inr (map PStr titles)"
  by (induction videos titles rule: list_all2_induct) simp_all

lemma strings_of_map: "strings_of (map PStr titles) = Inr titles"
  by (induction titles) (simp_all add: as_str_def)

lemma analyze_title_patterns_InrD:
  assumes "map_of (view w) nm = Some videos"
    and "list_all2 (\<lambda>v t. map_of v ''title'' = Some (PStr t)) videos titles"
    and "analyze_title_patterns w nm = Inr report"
    and "videos \<noteq> []"
  shows "\<exists>a. report = TitleAnalysis a \<and> total_videos_analyzed a = length titles
           \<and> percentages (title_pattern_counts titles) (length titles) = Inr (pattern_usage a)"
proof -
  from assms(4) obtain v vs where vs: "videos = v # vs" by (cases videos) auto
  have t: "titles_of (v # vs) = Inr (map PStr titles)"
    using titles_of_map [OF assms(2)] unfolding vs .
  have m: "map_of (view w) nm = Some (v # vs)" using assms(1) unfolding vs .
  from assms(3) show ?thesis
    unfolding analyze_title_patterns_def m Let_def
    by (auto simp: t strings_of_map bind_Inr_iff simp del: titles_of.simps)
qed

lemma performance_without_ctr:
  assumes "list_all (\<lambda>v. \<not> has_key v ''ctr'') videos"
  shows "performance (zip titles videos) = Inr None"
proof -
  have "filter (\<lambda>(t, v). has_key v ''ctr'') (zip titles videos) = []"
    using assms by (auto simp: filter_empty_conv list_all_iff dest: set_zip_rightD)
  then show ?thesis by (simp add: performance_def)
qed

lemma recommendations_total:
  "patterns \<noteq> [] \<Longrightarrow> \<exists>recs. generate_title_pattern_recommendations patterns c = Inr recs"
  by (cases patterns) (simp_all add: generate_title_pattern_recommendations_def Let_def)

lemma analyze_title_patterns_total:
  assumes "map_of (view w) nm = Some (v # vs)"
    and "list_all2 (\<lambda>v t. map_of v ''title'' = Some (PStr t)) (v # vs) titles"
    and "list_all (\<lambda>v. \<not> has_key v ''ctr'') (v # vs)"
    and "percentages (title_pattern_counts titles) (length titles) = Inr usage"
    and "usage \<noteq> []"
  shows "\<exists>a. analyze_title_patterns w nm = Inr (TitleAnalysis a)"
proof -
  have t: "titles_of (v # vs) = Inr (map PStr titles)" by (rule titles_of_map [OF assms(2)])
  have p: "performance (zip titles (v # vs)) = Inr None"
    by (rule performance_without_ctr [OF assms(3)])
  from recommendations_total [OF assms(5)] obtain recs where
    r: "generate_title_pattern_recommendations usage None = Inr recs" ..
  show ?thesis
    unfolding analyze_title_patterns_def assms(1) Let_def
    by (simp add: t strings_of_map assms(4) p r truediv_def del: titles_of.simps)
qed

text \<open>
  C6. For a niche that holds three records with the titles "How to Focus Better",
  "5 Tips for Sleep" and "Why Diets Fail?", the pattern counts are how_to = 1,
  listicle = 1, question = 1 (and 0 for the other patterns), every analysis returned
  reports 3 videos and a usage of 100/3 percent for each of the three patterns, and an
  analysis is returned when no record has a \<^verbatim>\<open>ctr\<close> field.
\<close>

theorem example_title_patterns:
  assumes "map_of (view w) nm = Some [r1, r2, r3]"
    and "map_of r1 ''title'' = Some (PStr ''How to Focus Better'')"
    and "map_of r2 ''title'' = Some (PStr ''5 Tips for Sleep'')"
    and "map_of r3 ''title'' = Some (PStr ''Why Diets Fail?'')"
  shows "title_pattern_counts [''How to Focus Better'', ''5 Tips for Sleep'', ''Why Diets Fail?'']
           = [(''how_to'', 1), (''listicle'', 1), (''question'', 1), (''statement'', 0),
              (''i_personal'', 0), (''you_focused'', 0)]
       \<and> (\<forall>report. analyze_title_patterns w nm = Inr report \<longrightarrow>
             (\<exists>a. report = TitleAnalysis a \<and> total_videos_analyzed a = 3
                \<and> pattern_usage a =
                     [(''how_to'', 100 / 3), (''listicle'', 100 / 3), (''question'', 100 / 3),
                      (''statement'', 0), (''i_personal'', 0), (''you_focused'', 0)]))
       \<and> (\<not> has_key r1 ''ctr'' \<and> \<not> has_key r2 ''ctr'' \<and> \<not> has_key r3 ''ctr'' \<longrightarrow>
             (\<exists>a. analyze_title_patterns w nm = Inr (TitleAnalysis a)))"
proof (intro conjI allI impI)
  show "title_pattern_counts [''How to Focus Better'', ''5 Tips for Sleep'', ''Why Diets Fail?'']
           = [(''how_to'', 1), (''listicle'', 1), (''question'', 1), (''statement'', 0),
              (''i_personal'', 0), (''you_focused'', 0)]"
    by (rule example_counts)
next
  have l: "list_all2 (\<lambda>v t. map_of v ''title'' = Some (PStr t)) [r1, r2, r3] example_titles"
    using assms(2-4) by (simp add: example_titles_def)
  have n: "length example_titles = 3" by (simp add: example_titles_def)
  {
    fix report assume "analyze_title_patterns w nm = Inr report"
    from analyze_title_patterns_InrD [OF assms(1) l this]
    obtain a where "report = TitleAnalysis a" "total_videos_analyzed a = 3"
      "percentages (title_pattern_counts example_titles) 3 = Inr (pattern_usage a)"
      unfolding n by auto
    then show "\<exists>a. report = TitleAnalysis a \<and> total_videos_analyzed a = 3
                \<and> pattern_usage a =
                     [(''how_to'', 100 / 3), (''listicle'', 100 / 3), (''question'', 100 / 3),
                      (''statement'', 0), (''i_personal'', 0), (''you_focused'', 0)]"
      unfolding example_percentages by auto
  }
  {
    assume "\<not> has_key r1 ''ctr'' \<and> \<not> has_key r2 ''ctr'' \<and> \<not> has_key r3 ''ctr''"
    then have c: "list_all (\<lambda>v. \<not> has_key v ''ctr'') [r1, r2, r3]" by simp
    have p: "percentages (title_pattern_counts example_titles) (length example_titles) =
       Inr [(''how_to'', 100 / 3), (''listicle'', 100 / 3), (''question'', 100 / 3),
          (''statement'', 0), (''i_personal'', 0), (''you_focused'', 0)]"
      unfolding n by (rule example_percentages)
    show "\<exists>a. analyze_title_patterns w nm = Inr (TitleAnalysis a)"
      by (rule analyze_title_patterns_total [OF assms(1) l c p]) simp
  }
qed

theorem example_title_patterns_witness:
  "\<exists>a. analyze_title_patterns titles_world ''productivity'' = Inr (TitleAnalysis a)
       \<and> total_videos_analyzed a = 3
       \<and> pattern_usage a =
            [(''how_to'', 100 / 3), (''listicle'', 100 / 3), (''question'', 100 / 3),
             (''statement'', 0), (''i_personal'', 0), (''you_focused'', 0)]"
proof -
  have v: "map_of (view titles_world) ''productivity'' =
             Some [[(''title'', PStr ''How to Focus Better'')], [(''title'', PStr ''5 Tips for Sleep'')],
                   [(''title'', PStr ''Why Diets Fail?'')]]"
    by (simp add: titles_world_def view_def)
  have inst: "(\<forall>report. analyze_title_patterns titles_world ''productivity'' = Inr report \<longrightarrow>
             (\<exists>a. report = TitleAnalysis a \<and> total_videos_analyzed a = 3
                \<and> pattern_usage a =
                     [(''how_to'', 100 / 3), (''listicle'', 100 / 3), (''question'', 100 / 3),
                      (''statement'', 0), (''i_personal'', 0), (''you_focused'', 0)]))"
    and tot: "\<exists>a. analyze_title_patterns titles_world ''productivity'' = Inr (TitleAnalysis a)"
    using example_title_patterns [OF v] by (simp_all add: has_key_def)
  from tot obtain a where a: "analyze_title_patterns titles_world ''productivity'' = Inr (TitleAnalysis a)" ..
  with inst show ?thesis by auto
qed

end
